theory Spec2Isabelle
  imports Main
begin

section \<open>JSON documents and JavaScript truthiness\<close>

text \<open>
  Response bodies are JSON documents. An object is an association list in insertion order,
  which is the order \<open>JSON.stringify\<close> emits; a key that was never assigned is absent
  from the list.
\<close>

datatype json =
    JNull
  | JBool bool
  | JNum int
  | JStr string
  | JArr "json list"
  | JObj "(string \<times> json) list"

text \<open>The fields of an object; a value that is not an object has none.\<close>

fun fields :: "json \<Rightarrow> (string \<times> json) list" where
  "fields (JObj kvs) = kvs"
| "fields _ = []"

definition has_key :: "json \<Rightarrow> string \<Rightarrow> bool" where
  "has_key j k = (k \<in> set (map fst (fields j)))"

definition get_key :: "json \<Rightarrow> string \<Rightarrow> json option" where
  "get_key j k = map_of (fields j) k"

text \<open>
  \<open>x || d\<close> on a nullable text column, a nullable integer column and a nullable boolean
  column: \<open>null\<close>, the empty string, \<open>0\<close> and \<open>false\<close> are falsy.
\<close>

definition or_str :: "string option \<Rightarrow> string \<Rightarrow> string" where
  "or_str x d = (case x of None \<Rightarrow> d | Some s \<Rightarrow> if s = [] then d else s)"

definition or_num :: "int option \<Rightarrow> int \<Rightarrow> int" where
  "or_num x d = (case x of None \<Rightarrow> d | Some n \<Rightarrow> if n = 0 then d else n)"

definition truthy :: "bool option \<Rightarrow> bool" where
  "truthy b = (b = Some True)"

definition json_bool :: "bool option \<Rightarrow> json" where
  "json_bool b = (case b of None \<Rightarrow> JNull | Some v \<Rightarrow> JBool v)"

section \<open>Rows of the schema (shared/schema.ts)\<close>

text \<open>
  One record per select type. A column without \<open>notNull()\<close> is an option (\<open>None\<close> is
  SQL NULL); \<open>serial\<close> ids are naturals; timestamps are naturals (milliseconds).
  Field names carry a table prefix because the tables share column names.
\<close>

record Server =
  s_id :: nat
  s_serverId :: string
  s_name :: string
  s_description :: "string option"
  s_icon :: "string option"
  s_version :: string
  s_address :: "string option"
  s_minecraftVersion :: string
  s_loaderType :: string
  s_loaderVersion :: string
  s_mainServer :: "bool option"
  s_autoconnect :: "bool option"
  s_createdAt :: nat
  s_updatedAt :: nat

record Mod =
  m_id :: nat
  m_serverId :: string
  m_modId :: string
  m_name :: string
  m_type :: string
  m_version :: "string option"
  m_required :: "bool option"
  m_enabled :: "bool option"
  m_optionalDefault :: "bool option"
  m_size :: "int option"
  m_url :: string
  m_md5 :: "string option"
  m_createdAt :: nat
  m_updatedAt :: nat

record ServerStat =
  st_id :: nat
  st_serverId :: string
  st_activePlayers :: "int option"
  st_currentBandwidth :: "int option"
  st_totalBandwidth :: "int option"
  st_totalSessionTime :: "int option"
  st_timestamp :: nat

record File =
  f_id :: nat
  f_serverId :: string
  f_path :: string
  f_isDirectory :: "bool option"
  f_isSticky :: "bool option"
  f_size :: "int option"
  f_lastModified :: nat

record InstallerSetting =
  is_id :: nat
  is_isInstalled :: "bool option"
  is_dbHost :: "string option"
  is_dbPort :: "string option"
  is_dbName :: "string option"
  is_dbUser :: "string option"
  is_installedAt :: "nat option"

record ApiConfig =
  ac_id :: nat
  ac_rssUrl :: "string option"
  ac_discordClientId :: "string option"
  ac_discordSmallImageText :: "string option"
  ac_discordSmallImageKey :: "string option"
  ac_version :: "string option"

record SiteSettings =
  ss_id :: nat
  ss_siteName :: "string option"
  ss_siteUrl :: "string option"
  ss_logoUrl :: "string option"
  ss_maintenanceMode :: "bool option"
  ss_enableRegistration :: "bool option"
  ss_updatedAt :: nat

text \<open>
  The database: one list of rows per table, in heap order, and the next value of each
  \<open>serial\<close> sequence.
\<close>

record db =
  servers :: "Server list"
  mods :: "Mod list"
  files :: "File list"
  serverStats :: "ServerStat list"
  installerSettings :: "InstallerSetting list"
  apiConfig :: "ApiConfig list"
  siteSettings :: "SiteSettings list"
  servers_seq :: nat
  mods_seq :: nat
  serverStats_seq :: nat
  installerSettings_seq :: nat
  apiConfig_seq :: nat
  siteSettings_seq :: nat

section \<open>SQL conditions as the query builder renders them\<close>

text \<open>
  A condition is the sequence of chunks the query builder concatenates into the WHERE
  clause. \<open>eq(col, v)\<close> renders the single comparison \<open>col = v\<close>. \<open>and(c1, ..., cn)\<close>
  renders \<open>(c1 and ... and cn)\<close>: one pair of parentheses around the whole
  conjunction, none around a member. A \<open>sql\<close> template is spliced in as written.
\<close>

datatype 'r chunk =
    Cmp "'r \<Rightarrow> bool"
  | KW_AND
  | KW_OR
  | LPAREN
  | RPAREN

definition eq :: "('r \<Rightarrow> 'a) \<Rightarrow> 'a \<Rightarrow> 'r chunk list" where
  "eq col v = [Cmp (\<lambda>r. col r = v)]"

fun sql_join :: "'r chunk list list \<Rightarrow> 'r chunk \<Rightarrow> 'r chunk list" where
  "sql_join [] sep = []"
| "sql_join [c] sep = c"
| "sql_join (c # cs) sep = c @ [sep] @ sql_join cs sep"

definition sql_and :: "'r chunk list list \<Rightarrow> 'r chunk list" where
  "sql_and conditions =
     (case conditions of
        [] \<Rightarrow> []
      | [c] \<Rightarrow> c
      | _ \<Rightarrow> [LPAREN] @ sql_join conditions KW_AND @ [RPAREN])"

text \<open>
  The database evaluates the rendered clause on a row with SQL's precedence: a comparison
  binds tighter than AND, AND binds tighter than OR, parentheses group. The evaluator runs
  over the chunks with a stack of open groups; a group is the pair of the disjunction of
  its finished conjunctions and the value of the conjunction being read.
  \<open>None\<close> is a clause with unbalanced parentheses.
\<close>

fun sql_eval :: "'r \<Rightarrow> 'r chunk list \<Rightarrow> (bool \<times> bool) list \<Rightarrow> bool option" where
  "sql_eval r [] [(d, c)] = Some (d \<or> c)"
| "sql_eval r [] gs = None"
| "sql_eval r (Cmp p # cs) ((d, c) # gs) = sql_eval r cs ((d, c \<and> p r) # gs)"
| "sql_eval r (KW_AND # cs) gs = sql_eval r cs gs"
| "sql_eval r (KW_OR # cs) ((d, c) # gs) = sql_eval r cs ((d \<or> c, True) # gs)"
| "sql_eval r (LPAREN # cs) gs = sql_eval r cs ((False, True) # gs)"
| "sql_eval r (RPAREN # cs) ((d, c) # (d', c') # gs) = sql_eval r cs ((d', c' \<and> (d \<or> c)) # gs)"
| "sql_eval r cs gs = None"

definition sql_holds :: "'r chunk list \<Rightarrow> 'r \<Rightarrow> bool" where
  "sql_holds w r = (sql_eval r w [(False, True)] = Some True)"

definition select_where :: "'r list \<Rightarrow> 'r chunk list \<Rightarrow> 'r list" where
  "select_where rows w = filter (sql_holds w) rows"

text \<open>
  \<open>text LIKE pattern\<close> with the default escape character: \<open>%\<close> matches any run of
  characters, \<open>_\<close> any one character, a backslash makes the next pattern character
  literal, any other character matches itself. (A pattern that ends in a lone backslash
  is an error in the database; it matches nothing here.)
\<close>

fun like_match :: "string \<Rightarrow> string \<Rightarrow> bool" where
  "like_match [] s = (s = [])"
| "like_match (c # p) s =
     (if c = CHR ''%'' then
        (like_match p s \<or> (case s of [] \<Rightarrow> False | x # s' \<Rightarrow> like_match (c # p) s'))
      else if c = CHR ''_'' then
        (case s of [] \<Rightarrow> False | x # s' \<Rightarrow> like_match p s')
      else if c = CHR 0x5C then
        (case p of [] \<Rightarrow> False
         | e # p' \<Rightarrow> (case s of [] \<Rightarrow> False | x # s' \<Rightarrow> x = e \<and> like_match p' s'))
      else
        (case s of [] \<Rightarrow> False | x # s' \<Rightarrow> x = c \<and> like_match p s'))"

text \<open>A pattern fragment without the characters that LIKE treats specially.\<close>

definition literal :: "string \<Rightarrow> bool" where
  "literal p = (\<forall>c\<in>set p. c \<noteq> CHR ''%'' \<and> c \<noteq> CHR ''_'' \<and> c \<noteq> CHR 0x5C)"

section \<open>Storage reads (DatabaseStorage)\<close>

text \<open>
  \<open>ORDER BY name\<close> sorts with the collation of the database, which the repository does
  not fix: the order \<open>le\<close> on names is a parameter. The sort is a stable insertion sort.
\<close>

fun insert_by :: "('a \<Rightarrow> 'a \<Rightarrow> bool) \<Rightarrow> 'a \<Rightarrow> 'a list \<Rightarrow> 'a list" where
  "insert_by le x [] = [x]"
| "insert_by le x (y # ys) = (if le x y then x # y # ys else y # insert_by le x ys)"

definition order_by :: "('a \<Rightarrow> 'a \<Rightarrow> bool) \<Rightarrow> 'a list \<Rightarrow> 'a list" where
  "order_by le xs = foldr (insert_by le) xs []"

definition getServers :: "(string \<Rightarrow> string \<Rightarrow> bool) \<Rightarrow> db \<Rightarrow> Server list" where
  "getServers le d = order_by (\<lambda>a b. le (s_name a) (s_name b)) (servers d)"

text \<open>\<open>const [row] = await db.select()...\<close>: the first row, or \<open>undefined\<close>.\<close>

definition first_row :: "'a list \<Rightarrow> 'a option" where
  "first_row rows = (case rows of [] \<Rightarrow> None | r # _ \<Rightarrow> Some r)"

definition getServer :: "db \<Rightarrow> string \<Rightarrow> Server option" where
  "getServer d ident = first_row (select_where (servers d) (eq s_serverId ident))"

definition getMods :: "db \<Rightarrow> string \<Rightarrow> Mod list" where
  "getMods d serverId = select_where (mods d) (eq m_serverId serverId)"

text \<open>
  \<open>getFiles(serverId, path?)\<close>. \<open>if (path)\<close> is false for \<open>undefined\<close> and for the
  empty string. With a path the WHERE clause is
  \<open>and(eq(files.serverId, serverId), sql`path LIKE ${path + '/%'} OR path = ${path}`)\<close>.
\<close>

definition getFiles :: "db \<Rightarrow> string \<Rightarrow> string option \<Rightarrow> File list" where
  "getFiles d serverId path =
     (case path of
        Some p \<Rightarrow>
          if p \<noteq> [] then
            select_where (files d)
              (sql_and [eq f_serverId serverId,
                        [Cmp (\<lambda>r. like_match (p @ ''/%'') (f_path r)), KW_OR,
                         Cmp (\<lambda>r. f_path r = p)]])
          else select_where (files d) (eq f_serverId serverId)
      | None \<Rightarrow> select_where (files d) (eq f_serverId serverId))"

definition getApiConfig :: "db \<Rightarrow> ApiConfig option" where
  "getApiConfig d = first_row (apiConfig d)"

section \<open>The distribution manifest (GET /api/distribution)\<close>

datatype exn = ReferenceError | UniqueViolation | ForeignKeyViolation | NoValuesToSet

datatype response = Response (status: nat) (body: json)

text \<open>\<open>obj[k] = v\<close>: replaces the value of an existing key, appends a new key.\<close>

fun obj_assign :: "string \<Rightarrow> json \<Rightarrow> (string \<times> json) list \<Rightarrow> (string \<times> json) list" where
  "obj_assign k v [] = [(k, v)]"
| "obj_assign k v ((k', v') # kvs) =
     (if k' = k then (k, v) # kvs else (k', v') # obj_assign k v kvs)"

definition baseModule :: "Server \<Rightarrow> Mod \<Rightarrow> (string \<times> json) list" where
  "baseModule server mod_row =
     [(''id'', JStr (m_modId mod_row)),
      (''name'', JStr (m_name mod_row)),
      (''type'', JStr (if m_type mod_row = ''Library'' then ''Library'' else ''FabricMod'')),
      (''artifact'', JObj
         [(''size'', JNum (or_num (m_size mod_row) 0)),
          (''url'', JStr (''/uploads/'' @ s_serverId server @ ''/mods/'' @ m_modId mod_row)),
          (''MD5'', JStr (or_str (m_md5 mod_row) []))])]"

text \<open>The body of the callback of \<open>mods.forEach\<close>: the entry pushed for one mod.\<close>

definition mod_module :: "Server \<Rightarrow> Mod \<Rightarrow> json" where
  "mod_module server mod_row =
     JObj (if \<not> truthy (m_required mod_row)
           then obj_assign ''required'' (JObj [(''value'', JBool False)]) (baseModule server mod_row)
           else baseModule server mod_row)"

fun mods_forEach :: "Server \<Rightarrow> Mod list \<Rightarrow> json list \<Rightarrow> json list" where
  "mods_forEach server [] modules = modules"
| "mods_forEach server (mod_row # rest) modules =
     mods_forEach server rest (modules @ [mod_module server mod_row])"

text \<open>
  The entry pushed for one uploaded file, given the function \<open>path.basename\<close>.
\<close>

definition file_module :: "(string \<Rightarrow> string) \<Rightarrow> Server \<Rightarrow> File \<Rightarrow> json" where
  "file_module basename server file =
     JObj [(''id'', JStr (basename (f_path file))),
           (''name'', JStr (basename (f_path file))),
           (''type'', JStr ''File''),
           (''artifact'', JObj
              [(''size'', JNum (or_num (f_size file) 0)),
               (''url'', JStr (''/uploads/'' @ s_serverId server @ ''/'' @ f_path file)),
               (''path'', JStr (f_path file))])]"

text \<open>
  The callback of \<open>files.forEach\<close> reads the identifier \<open>path\<close>. The module api.ts
  imports Express, storage and the schema types, and nothing named \<open>path\<close> (routes.ts
  does import it, for its own use). The binding of that identifier is the parameter
  \<open>path_binding\<close>: \<open>None\<close> is the module as it is written, where reading \<open>path\<close> raises a
  ReferenceError; \<open>Some basename\<close> is the module with the path library bound.
  The object literal is evaluated before \<open>push\<close>, so nothing is pushed when it raises.
\<close>

fun files_forEach ::
  "(string \<Rightarrow> string) option \<Rightarrow> Server \<Rightarrow> File list \<Rightarrow> json list \<Rightarrow> exn + json list" where
  "files_forEach path_binding server [] modules = Inr modules"
| "files_forEach path_binding server (file # rest) modules =
     (if \<not> truthy (f_isDirectory file) then
        (case path_binding of
           None \<Rightarrow> Inl ReferenceError
         | Some basename \<Rightarrow>
             files_forEach path_binding server rest (modules @ [file_module basename server file]))
      else files_forEach path_binding server rest modules)"

definition transformModsToModules ::
  "(string \<Rightarrow> string) option \<Rightarrow> db \<Rightarrow> Mod list \<Rightarrow> Server \<Rightarrow> exn + json list" where
  "transformModsToModules path_binding d serverMods server =
     files_forEach path_binding server (getFiles d (s_serverId server) None)
       (mods_forEach server serverMods [])"

definition server_entry ::
  "(string \<Rightarrow> string) option \<Rightarrow> db \<Rightarrow> ApiConfig \<Rightarrow> Server \<Rightarrow> exn + json" where
  "server_entry path_binding d cfg server =
     (case transformModsToModules path_binding d (getMods d (s_serverId server)) server of
        Inl e \<Rightarrow> Inl e
      | Inr modules \<Rightarrow> Inr (JObj
          [(''id'', JStr (s_serverId server)),
           (''name'', JStr (s_name server)),
           (''description'', JStr (or_str (s_description server) [])),
           (''icon'', JStr (or_str (s_icon server) [])),
           (''version'', JStr (s_version server)),
           (''address'', JStr (or_str (s_address server) [])),
           (''minecraftVersion'', JStr (s_minecraftVersion server)),
           (''discord'', JObj
              [(''shortId'', JStr (or_str (ac_discordClientId cfg) [])),
               (''largeImageText'', JStr ''logo''),
               (''largeImageKey'', JStr ''logo_without_background'')]),
           (''mainServer'', json_bool (s_mainServer server)),
           (''autoconnect'', json_bool (s_autoconnect server)),
           (''modules'', JArr modules)]))"

text \<open>\<open>Promise.all(xs.map(f))\<close>: the list of results, or the rejection of a callback.\<close>

fun promise_all_map :: "('a \<Rightarrow> exn + 'b) \<Rightarrow> 'a list \<Rightarrow> exn + 'b list" where
  "promise_all_map f [] = Inr []"
| "promise_all_map f (x # xs) =
     (case f x of
        Inl e \<Rightarrow> Inl e
      | Inr y \<Rightarrow> (case promise_all_map f xs of Inl e \<Rightarrow> Inl e | Inr ys \<Rightarrow> Inr (y # ys)))"

text \<open>The document sent when every server entry was built.\<close>

definition distribution :: "ApiConfig \<Rightarrow> json list \<Rightarrow> json" where
  "distribution cfg entries =
     JObj [(''version'', JStr (or_str (ac_version cfg) ''1.0.0'')),
           (''rss'', JStr (or_str (ac_rssUrl cfg) [])),
           (''discord'', JObj
              [(''clientId'', JStr (or_str (ac_discordClientId cfg) [])),
               (''smallImageText'', JStr (or_str (ac_discordSmallImageText cfg) ''logo'')),
               (''smallImageKey'', JStr (or_str (ac_discordSmallImageKey cfg) ''logo''))]),
           (''servers'', JArr entries)]"

definition get_distribution ::
  "(string \<Rightarrow> string \<Rightarrow> bool) \<Rightarrow> (string \<Rightarrow> string) option \<Rightarrow> db \<Rightarrow> response" where
  "get_distribution le path_binding d =
     (case getApiConfig d of
        None \<Rightarrow> Response 500 (JObj [(''error'', JStr ''API configuration not found'')])
      | Some cfg \<Rightarrow>
          (case promise_all_map (server_entry path_binding d cfg) (getServers le d) of
             Inl e \<Rightarrow> Response 500 (JObj [(''error'', JStr ''Failed to generate distribution.json'')])
           | Inr entries \<Rightarrow> Response 200 (distribution cfg entries)))"

section \<open>Storage writes (DatabaseStorage)\<close>

text \<open>
  Insert types. A required column is a plain value. A column that is optional in the
  insert schema has three states: the key is absent (\<open>None\<close>, the database supplies the
  column default on insert and leaves the column alone on update), the key is \<open>null\<close>
  (\<open>Some None\<close>), or the key carries a value.
\<close>

definition or_default :: "'a option option \<Rightarrow> 'a option \<Rightarrow> 'a option" where
  "or_default given dflt = (case given of None \<Rightarrow> dflt | Some v \<Rightarrow> v)"

record InsertServer =
  ns_serverId :: string
  ns_name :: string
  ns_description :: "string option option"
  ns_icon :: "string option option"
  ns_version :: string
  ns_address :: "string option option"
  ns_minecraftVersion :: string
  ns_loaderType :: string
  ns_loaderVersion :: string
  ns_mainServer :: "bool option option"
  ns_autoconnect :: "bool option option"

record InsertMod =
  nm_serverId :: string
  nm_modId :: string
  nm_name :: string
  nm_type :: string
  nm_version :: "string option option"
  nm_required :: "bool option option"
  nm_enabled :: "bool option option"
  nm_optionalDefault :: "bool option option"
  nm_size :: "int option option"
  nm_url :: string
  nm_md5 :: "string option option"

record InsertServerStat =
  nst_serverId :: string
  nst_activePlayers :: "int option option"
  nst_currentBandwidth :: "int option option"
  nst_totalBandwidth :: "int option option"
  nst_totalSessionTime :: "int option option"





subsection \<open>Servers and mods\<close>

text \<open>
  The insert into \<open>servers\<close> of \<open>createServer\<close>: \<open>server_id\<close> is unique. The argument
  \<open>now\<close> is the clock, read by \<open>new Date()\<close> and by the column default \<open>now()\<close>.
\<close>

definition insert_server :: "nat \<Rightarrow> InsertServer \<Rightarrow> db \<Rightarrow> exn + (Server \<times> db)" where
  "insert_server now insertServer d =
     (if ns_serverId insertServer \<in> set (map s_serverId (servers d)) then Inl UniqueViolation
      else
        (let server = \<lparr>
               s_id = servers_seq d,
               s_serverId = ns_serverId insertServer,
               s_name = ns_name insertServer,
               s_description = or_default (ns_description insertServer) None,
               s_icon = or_default (ns_icon insertServer) None,
               s_version = ns_version insertServer,
               s_address = or_default (ns_address insertServer) None,
               s_minecraftVersion = ns_minecraftVersion insertServer,
               s_loaderType = ns_loaderType insertServer,
               s_loaderVersion = ns_loaderVersion insertServer,
               s_mainServer = or_default (ns_mainServer insertServer) (Some False),
               s_autoconnect = or_default (ns_autoconnect insertServer) (Some False),
               s_createdAt = now,
               s_updatedAt = now \<rparr>
         in Inr (server, d\<lparr>servers := servers d @ [server], servers_seq := Suc (servers_seq d)\<rparr>)))"

text \<open>\<open>createMod\<close>: \<open>mods.server_id\<close> references \<open>servers.server_id\<close>.\<close>

definition createMod :: "nat \<Rightarrow> InsertMod \<Rightarrow> db \<Rightarrow> exn + (Mod \<times> db)" where
  "createMod now insertMod d =
     (if nm_serverId insertMod \<notin> set (map s_serverId (servers d)) then Inl ForeignKeyViolation
      else
        (let mod_row = \<lparr>
               m_id = mods_seq d,
               m_serverId = nm_serverId insertMod,
               m_modId = nm_modId insertMod,
               m_name = nm_name insertMod,
               m_type = nm_type insertMod,
               m_version = or_default (nm_version insertMod) None,
               m_required = or_default (nm_required insertMod) (Some True),
               m_enabled = or_default (nm_enabled insertMod) (Some True),
               m_optionalDefault = or_default (nm_optionalDefault insertMod) (Some False),
               m_size = or_default (nm_size insertMod) None,
               m_url = nm_url insertMod,
               m_md5 = or_default (nm_md5 insertMod) None,
               m_createdAt = now,
               m_updatedAt = now \<rparr>
         in Inr (mod_row, d\<lparr>mods := mods d @ [mod_row], mods_seq := Suc (mods_seq d)\<rparr>)))"

record library =
  lib_id :: string
  lib_name :: string
  lib_type :: string
  lib_url :: string

definition defaultLibraries :: "library list" where
  "defaultLibraries =
     [\<lparr> lib_id = ''net.fabricmc:fabric-loader:0.16.13'',
        lib_name = ''Fabric'',
        lib_type = ''Library'',
        lib_url = ''https://maven.fabricmc.net/net/fabricmc/fabric-loader/0.16.13/fabric-loader-0.16.13.jar'' \<rparr>,
      \<lparr> lib_id = ''net.fabricmc:intermediary:1.20.1'',
        lib_name = ''Fabric Intermediary'',
        lib_type = ''Library'',
        lib_url = ''https://maven.fabricmc.net/net/fabricmc/intermediary/1.20.1/intermediary-1.20.1.jar'' \<rparr>]"

definition library_mod :: "Server \<Rightarrow> library \<Rightarrow> InsertMod" where
  "library_mod server lib =
     \<lparr> nm_serverId = s_serverId server,
       nm_modId = lib_id lib,
       nm_name = lib_name lib,
       nm_type = lib_type lib,
       nm_version = None,
       nm_required = Some (Some True),
       nm_enabled = None,
       nm_optionalDefault = None,
       nm_size = None,
       nm_url = lib_url lib,
       nm_md5 = None \<rparr>"

text \<open>
  \<open>createServer\<close> awaits three statements one after the other, outside any transaction:
  each statement commits on its own. A run is the outcome of the call together with the
  database states it committed, in order. The loop over the default libraries stops at the
  first statement that is rejected.
\<close>

fun add_default_libraries :: "nat \<Rightarrow> Server \<Rightarrow> library list \<Rightarrow> db \<Rightarrow> exn option \<times> db list" where
  "add_default_libraries now server [] d = (None, [])"
| "add_default_libraries now server (lib # libs) d =
     (case createMod now (library_mod server lib) d of
        Inl e \<Rightarrow> (Some e, [])
      | Inr (mod_row, d') \<Rightarrow>
          (case add_default_libraries now server libs d' of
             (outcome, commits) \<Rightarrow> (outcome, d' # commits)))"

definition createServer_run :: "nat \<Rightarrow> InsertServer \<Rightarrow> db \<Rightarrow> (exn + Server) \<times> db list" where
  "createServer_run now insertServer d =
     (case insert_server now insertServer d of
        Inl e \<Rightarrow> (Inl e, [])
      | Inr (server, d1) \<Rightarrow>
          (case add_default_libraries now server defaultLibraries d1 of
             (Some e, commits) \<Rightarrow> (Inl e, d1 # commits)
           | (None, commits) \<Rightarrow> (Inr server, d1 # commits)))"

text \<open>The call as a state transformer: its outcome and the last committed state.\<close>

definition createServer :: "nat \<Rightarrow> InsertServer \<Rightarrow> db \<Rightarrow> (exn + Server) \<times> db" where
  "createServer now insertServer d =
     (case createServer_run now insertServer d of
        (outcome, commits) \<Rightarrow> (outcome, last (d # commits)))"

subsection \<open>Server statistics\<close>

definition createServerStat :: "nat \<Rightarrow> InsertServerStat \<Rightarrow> db \<Rightarrow> exn + (ServerStat \<times> db)" where
  "createServerStat now insertStat d =
     (if nst_serverId insertStat \<notin> set (map s_serverId (servers d)) then Inl ForeignKeyViolation
      else
        (let stat = \<lparr>
               st_id = serverStats_seq d,
               st_serverId = nst_serverId insertStat,
               st_activePlayers = or_default (nst_activePlayers insertStat) (Some 0),
               st_currentBandwidth = or_default (nst_currentBandwidth insertStat) (Some 0),
               st_totalBandwidth = or_default (nst_totalBandwidth insertStat) (Some 0),
               st_totalSessionTime = or_default (nst_totalSessionTime insertStat) (Some 0),
               st_timestamp = now \<rparr>
         in Inr (stat, d\<lparr>serverStats := serverStats d @ [stat],
                         serverStats_seq := Suc (serverStats_seq d)\<rparr>)))"

subsection \<open>Singleton settings tables\<close>










section \<open>The stat ingestion route (POST /api/stats)\<close>

text \<open>
  The route runs the rate limiter first (\<open>windowMs\<close> 60000, \<open>max\<close> 60) and the handler
  only for a request the limiter lets through. The limiter counts the requests of each
  client key (by default the address of the request) in the current window; the state is
  that count per key. A request is counted, and it is answered 429 with the configured
  message once the count exceeds \<open>max\<close>. (The end of a window, which resets the
  count, is not a step of this model.)
\<close>

type_synonym limiter = "string \<Rightarrow> nat"

definition statsRateLimit_max :: nat where
  "statsRateLimit_max = 60"

definition statsRateLimit :: "limiter \<Rightarrow> string \<Rightarrow> bool \<times> limiter" where
  "statsRateLimit lim client =
     (let totalHits = Suc (lim client)
      in (totalHits \<le> statsRateLimit_max, lim(client := totalHits)))"

text \<open>
  The row as \<open>res.json\<close> sends it (the timestamp is shown as its number of
  milliseconds).
\<close>

definition stat_json :: "ServerStat \<Rightarrow> json" where
  "stat_json stat =
     JObj [(''id'', JNum (int (st_id stat))),
           (''serverId'', JStr (st_serverId stat)),
           (''activePlayers'', (case st_activePlayers stat of None \<Rightarrow> JNull | Some n \<Rightarrow> JNum n)),
           (''currentBandwidth'', (case st_currentBandwidth stat of None \<Rightarrow> JNull | Some n \<Rightarrow> JNum n)),
           (''totalBandwidth'', (case st_totalBandwidth stat of None \<Rightarrow> JNull | Some n \<Rightarrow> JNum n)),
           (''totalSessionTime'', (case st_totalSessionTime stat of None \<Rightarrow> JNull | Some n \<Rightarrow> JNum n)),
           (''timestamp'', JNum (int (st_timestamp stat)))]"

text \<open>
  The handler. \<open>parse\<close> is \<open>insertServerStatSchema.parse\<close>: the validated insert value, or
  the message of the validation error, which \<open>handleError\<close> turns into a 400; any other
  exception becomes a 500.
\<close>

definition stats_handler ::
  "('b \<Rightarrow> string + InsertServerStat) \<Rightarrow> nat \<Rightarrow> 'b \<Rightarrow> db \<Rightarrow> response \<times> db" where
  "stats_handler parse now req_body d =
     (case parse req_body of
        Inl message \<Rightarrow> (Response 400 (JObj [(''message'', JStr message)]), d)
      | Inr statData \<Rightarrow>
          (case getServer d (nst_serverId statData) of
             None \<Rightarrow> (Response 404 (JObj [(''message'', JStr ''Server not found'')]), d)
           | Some server \<Rightarrow>
               (case createServerStat now statData d of
                  Inl e \<Rightarrow> (Response 500 (JObj [(''message'', JStr ''Internal server error'')]), d)
                | Inr (stat, d') \<Rightarrow> (Response 201 (stat_json stat), d'))))"

definition post_stats ::
  "('b \<Rightarrow> string + InsertServerStat) \<Rightarrow> nat \<Rightarrow> string \<Rightarrow> 'b \<Rightarrow> limiter \<times> db
     \<Rightarrow> response \<times> limiter \<times> db" where
  "post_stats parse now client req_body state =
     (case state of (lim, d) \<Rightarrow>
        (case statsRateLimit lim client of
           (admitted, lim') \<Rightarrow>
             if admitted then
               (case stats_handler parse now req_body d of (res, d') \<Rightarrow> (res, lim', d'))
             else
               (Response 429 (JObj [(''error'', JStr ''Too many requests, please try again later'')]),
                lim', d)))"

section \<open>The stats WebSocket channel\<close>

text \<open>
  One connection, as the state its handler closes over: the socket's \<open>readyState\<close>, the
  interval timer \<open>statsInterval\<close> (\<open>Some period\<close> while it is armed, \<open>None\<close> before
  \<open>setInterval\<close> and after \<open>clearInterval\<close>), whether the close and error listeners are
  registered, and three counters that observe the run: calls of \<open>sendCurrentStats\<close>,
  frames handed to \<open>ws.send\<close> without an exception, and errors logged by
  \<open>sendCurrentStats\<close>.
\<close>

datatype ready_state = CONNECTING | OPEN | CLOSING | CLOSED

record conn =
  readyState :: ready_state
  statsInterval :: "nat option"
  listening :: bool
  initiated :: nat
  delivered :: nat
  logged :: nat

text \<open>
  What happens inside one call of \<open>sendCurrentStats\<close> is decided by the environment:
  the reads and the send go through, a storage read is rejected, or \<open>ws.send\<close> throws.
\<close>

datatype send_outcome = SendOk | StorageFails | SendThrows

datatype send_error = StorageError | SendError

text \<open>The statements inside the \<open>try\<close> block of \<open>sendCurrentStats\<close>.\<close>

definition snapshot_and_send :: "send_outcome \<Rightarrow> conn \<Rightarrow> send_error + conn" where
  "snapshot_and_send outcome c =
     (case outcome of
        SendOk \<Rightarrow> Inr (c\<lparr>delivered := Suc (delivered c)\<rparr>)
      | StorageFails \<Rightarrow> Inl StorageError
      | SendThrows \<Rightarrow> Inl SendError)"

text \<open>
  \<open>sendCurrentStats\<close>: the whole body is inside \<open>try\<close>, and the \<open>catch\<close> logs the error
  and returns. The result is \<open>Inl\<close> if the call throws to its caller.
\<close>

definition sendCurrentStats :: "send_outcome \<Rightarrow> conn \<Rightarrow> send_error + conn" where
  "sendCurrentStats outcome c =
     (let c1 = c\<lparr>initiated := Suc (initiated c)\<rparr>
      in case snapshot_and_send outcome c1 of
           Inl e \<Rightarrow> Inr (c1\<lparr>logged := Suc (logged c1)\<rparr>)
         | Inr c2 \<Rightarrow> Inr c2)"

definition clearInterval :: "conn \<Rightarrow> conn" where
  "clearInterval c = c\<lparr>statsInterval := None\<rparr>"

text \<open>A socket as the server hands it to the connection handler.\<close>

definition new_socket :: conn where
  "new_socket = \<lparr> readyState = OPEN, statsInterval = None, listening = False,
                   initiated = 0, delivered = 0, logged = 0 \<rparr>"

text \<open>
  The connection handler: send at once, arm the timer with a period of 5000 ms, register
  the close and error listeners; an exception anywhere skips the rest.
\<close>

definition on_connection :: "send_outcome \<Rightarrow> conn \<Rightarrow> conn" where
  "on_connection outcome ws =
     (case sendCurrentStats outcome ws of
        Inl e \<Rightarrow> ws
      | Inr c \<Rightarrow> c\<lparr>statsInterval := Some 5000, listening := True\<rparr>)"

text \<open>
  What can happen to a connection afterwards: the timer fires (only an armed timer does),
  the socket closes, the socket reports an error, or the socket library moves
  \<open>readyState\<close> (for instance to CLOSING when the peer starts the closing handshake).
\<close>

datatype ws_event = Tick send_outcome | Close | Error | ReadyState ready_state

fun ws_step :: "ws_event \<Rightarrow> conn \<Rightarrow> conn" where
  "ws_step (Tick outcome) c =
     (case statsInterval c of
        None \<Rightarrow> c
      | Some period \<Rightarrow>
          (case (if readyState c = OPEN then sendCurrentStats outcome c
                 else Inr (clearInterval c)) of
             Inl e \<Rightarrow> clearInterval c
           | Inr c' \<Rightarrow> c'))"
| "ws_step Close c =
     (if listening c then clearInterval (c\<lparr>readyState := CLOSED\<rparr>) else c\<lparr>readyState := CLOSED\<rparr>)"
| "ws_step Error c = (if listening c then clearInterval c else c)"
| "ws_step (ReadyState rs) c = c\<lparr>readyState := rs\<rparr>"

definition ws_run :: "ws_event list \<Rightarrow> conn \<Rightarrow> conn" where
  "ws_run events c = fold ws_step events c"

section \<open>Example data\<close>

text \<open>Byte order on names, as an example of a collation.\<close>

fun byte_le :: "string \<Rightarrow> string \<Rightarrow> bool" where
  "byte_le [] ys = True"
| "byte_le (x # xs) [] = False"
| "byte_le (x # xs) (y # ys) =
     ((of_char x :: nat) < of_char y \<or> (x = y \<and> byte_le xs ys))"

definition empty_db :: db where
  "empty_db = \<lparr> servers = [], mods = [], files = [], serverStats = [],
                 installerSettings = [], apiConfig = [], siteSettings = [],
                 servers_seq = 1, mods_seq = 1, serverStats_seq = 1,
                 installerSettings_seq = 1, apiConfig_seq = 1, siteSettings_seq = 1 \<rparr>"

definition server_row :: "nat \<Rightarrow> string \<Rightarrow> string \<Rightarrow> Server" where
  "server_row i ident nm =
     \<lparr> s_id = i, s_serverId = ident, s_name = nm, s_description = None, s_icon = None,
       s_version = ''1.0.0'', s_address = None, s_minecraftVersion = ''1.20.1'',
       s_loaderType = ''Fabric'', s_loaderVersion = ''0.16.13'',
       s_mainServer = Some False, s_autoconnect = Some False,
       s_createdAt = 0, s_updatedAt = 0 \<rparr>"

definition file_row :: "nat \<Rightarrow> string \<Rightarrow> string \<Rightarrow> bool option \<Rightarrow> File" where
  "file_row i ident p dir =
     \<lparr> f_id = i, f_serverId = ident, f_path = p, f_isDirectory = dir,
       f_isSticky = Some False, f_size = Some 10, f_lastModified = 0 \<rparr>"

definition mod_with_required :: "bool option \<Rightarrow> Mod" where
  "mod_with_required req =
     \<lparr> m_id = 1, m_serverId = ''alpha'', m_modId = ''sodium'', m_name = ''Sodium'',
       m_type = ''FabricMod'', m_version = None, m_required = req, m_enabled = Some True,
       m_optionalDefault = Some False, m_size = Some 10,
       m_url = ''https://example.org/sodium.jar'', m_md5 = None,
       m_createdAt = 0, m_updatedAt = 0 \<rparr>"

definition api_config_row :: ApiConfig where
  "api_config_row =
     \<lparr> ac_id = 1, ac_rssUrl = None, ac_discordClientId = None,
       ac_discordSmallImageText = None, ac_discordSmallImageKey = None,
       ac_version = Some ''1.0.0'' \<rparr>"

definition new_server :: "string \<Rightarrow> InsertServer" where
  "new_server ident =
     \<lparr> ns_serverId = ident, ns_name = ''Alpha'', ns_description = None, ns_icon = None,
       ns_version = ''1.0.0'', ns_address = None, ns_minecraftVersion = ''1.20.1'',
       ns_loaderType = ''Fabric'', ns_loaderVersion = ''0.16.13'',
       ns_mainServer = None, ns_autoconnect = None \<rparr>"

definition new_stat :: "string \<Rightarrow> InsertServerStat" where
  "new_stat ident =
     \<lparr> nst_serverId = ident, nst_activePlayers = Some (Some 3), nst_currentBandwidth = None,
       nst_totalBandwidth = None, nst_totalSessionTime = None \<rparr>"

text \<open>
  Two servers; server \<open>beta\<close> owns a file at the path \<open>a/b\<close>, server \<open>alpha\<close> owns a
  file at \<open>axb/c\<close> and a directory \<open>docs\<close>.
\<close>

definition two_servers_db :: db where
  "two_servers_db =
     empty_db\<lparr> servers := [server_row 1 ''alpha'' ''Alpha'', server_row 2 ''beta'' ''Beta''],
               files := [file_row 1 ''beta'' ''a/b'' (Some False),
                         file_row 2 ''alpha'' ''axb/c'' (Some False),
                         file_row 3 ''alpha'' ''docs'' (Some True)],
               apiConfig := [api_config_row],
               servers_seq := 3 \<rparr>"

text \<open>One server with mods and a directory, and no uploaded file.\<close>

definition one_server_db :: db where
  "one_server_db =
     empty_db\<lparr> servers := [server_row 1 ''alpha'' ''Alpha''],
               mods := [mod_with_required (Some True)],
               files := [file_row 1 ''alpha'' ''docs'' (Some True)],
               apiConfig := [api_config_row],
               servers_seq := 2, mods_seq := 2 \<rparr>"

text \<open>
  The server \<open>alpha\<close> with three mods: one required, one not required and switched on
  by default, one whose \<open>required\<close> flag is null.
\<close>

definition mixed_mods_db :: db where
  "mixed_mods_db =
     one_server_db\<lparr>
       mods := [mod_with_required (Some True),
                (mod_with_required (Some False))\<lparr> m_id := 2, m_modId := ''iris'', m_name := ''Iris'',
                                                   m_optionalDefault := Some True \<rparr>,
                (mod_with_required None)\<lparr> m_id := 3, m_modId := ''lithium'', m_name := ''Lithium'' \<rparr>],
       mods_seq := 4 \<rparr>"





section \<open>Properties of the queries\<close>

lemma sql_holds_eq: "sql_holds (eq col v) = (\<lambda>r. col r = v)"
  by (rule ext) (simp add: sql_holds_def eq_def)

lemma select_where_eq: "select_where rows (eq col v) = filter (\<lambda>r. col r = v) rows"
  by (simp add: select_where_def sql_holds_eq)

lemma getFiles_all: "getFiles d s None = filter (\<lambda>f. f_serverId f = s) (files d)"
  by (simp add: getFiles_def select_where_eq)

text \<open>
  The clause of \<open>getFiles\<close> with a path, as the database reads it: the parentheses of
  \<open>and\<close> enclose the whole clause, so the OR of the template splits it at the top, and
  the comparison with the server id belongs to the LIKE branch only.
\<close>

lemma sql_holds_getFiles:
  "sql_holds (sql_and [eq f_serverId s,
       [Cmp (\<lambda>r. like_match pat (f_path r)), KW_OR, Cmp (\<lambda>r. f_path r = p)]])
     = (\<lambda>f. (f_serverId f = s \<and> like_match pat (f_path f)) \<or> f_path f = p)"
  by (rule ext) (simp add: sql_holds_def sql_and_def eq_def)

lemma getFiles_path:
  "p \<noteq> [] \<Longrightarrow> getFiles d s (Some p) =
     filter (\<lambda>f. (f_serverId f = s \<and> like_match (p @ ''/%'') (f_path f)) \<or> f_path f = p)
       (files d)"
  by (simp add: getFiles_def select_where_def sql_holds_getFiles)

section \<open>Properties of the distribution manifest\<close>

lemma mods_forEach_map: "mods_forEach server ms acc = acc @ map (mod_module server) ms"
  by (induction ms arbitrary: acc) simp_all

lemma files_forEach_bound:
  "files_forEach (Some bn) server fs acc =
     Inr (acc @ map (file_module bn server) (filter (\<lambda>f. \<not> truthy (f_isDirectory f)) fs))"
  by (induction fs arbitrary: acc) simp_all

lemma files_forEach_unbound:
  "files_forEach None server fs acc =
     (if list_ex (\<lambda>f. \<not> truthy (f_isDirectory f)) fs then Inl ReferenceError else Inr acc)"
  by (induction fs arbitrary: acc) simp_all

text \<open>
  With the path library bound, the modules of a server are its mod entries followed by one
  File entry for each of its file rows that is not a directory.
\<close>

lemma transformModsToModules_bound:
  "transformModsToModules (Some bn) d ms server =
     Inr (map (mod_module server) ms @
          map (file_module bn server)
            (filter (\<lambda>f. f_isDirectory f \<noteq> Some True)
               (filter (\<lambda>f. f_serverId f = s_serverId server) (files d))))"
  by (simp add: transformModsToModules_def files_forEach_bound mods_forEach_map getFiles_all
      truthy_def)

text \<open>
  Claim C1 says that every file row of a server with \<open>isDirectory = false\<close> is appended to
  the server's modules as an entry of kind File with its size, URL and path. In api.ts as
  written the identifier \<open>path\<close> is unbound: for the server \<open>alpha\<close> of
  \<open>two_servers_db\<close>, which owns the file \<open>axb/c\<close>, building the modules raises a
  ReferenceError instead of appending the entry, and the endpoint answers 500 with no
  manifest.
\<close>

theorem file_entry_raises_reference_error:
  "transformModsToModules None two_servers_db (getMods two_servers_db ''alpha'')
     (server_row 1 ''alpha'' ''Alpha'') = Inl ReferenceError \<and>
   get_distribution byte_le None two_servers_db =
     Response 500 (JObj [(''error'', JStr ''Failed to generate distribution.json'')])"
  by (simp add: transformModsToModules_def get_distribution_def getApiConfig_def first_row_def
      server_entry_def getServers_def order_by_def files_forEach_unbound getFiles_all
      two_servers_db_def empty_db_def server_row_def file_row_def truthy_def)

text \<open>
  How the modules of a server reach the manifest. The list that \<open>transformModsToModules\<close>
  returns starts with one entry per mod, in the order of the mods, each the entry that the
  callback of \<open>mods.forEach\<close> pushes; and the document that the endpoint sends holds, for
  the k-th server, exactly the list that \<open>transformModsToModules\<close> returns for that
  server and its mods.
\<close>

lemma files_forEach_extends:
  "files_forEach pb server fs acc = Inr out \<Longrightarrow> \<exists>rest. out = acc @ rest"
proof (induction fs arbitrary: acc)
  case Nil
  then show ?case by simp
next
  case (Cons f fs)
  show ?case
  proof (cases "\<not> truthy (f_isDirectory f)")
    case False
    with Cons show ?thesis by simp
  next
    case True
    with Cons.prems obtain bn where b: "pb = Some bn"
      by (cases pb) simp_all
    with True Cons.prems
    have "files_forEach pb server fs (acc @ [file_module bn server f]) = Inr out"
      by simp
    from Cons.IH [OF this] show ?thesis by auto
  qed
qed

lemma transformModsToModules_mod_entries:
  assumes "transformModsToModules pb d ms server = Inr modules" and "i < length ms"
  shows "i < length modules \<and> modules ! i = mod_module server (ms ! i)"
proof -
  from assms(1) obtain rest where "modules = map (mod_module server) ms @ rest"
    using files_forEach_extends [of pb server _ "map (mod_module server) ms" modules]
    by (auto simp: transformModsToModules_def mods_forEach_map)
  with assms(2) show ?thesis
    by (simp add: nth_append)
qed

lemma promise_all_map_Inr:
  "promise_all_map f xs = Inr ys \<Longrightarrow>
     length ys = length xs \<and> (\<forall>k<length xs. f (xs ! k) = Inr (ys ! k))"
proof (induction xs arbitrary: ys)
  case Nil
  then show ?case by simp
next
  case (Cons x xs)
  then obtain y ys' where y: "f x = Inr y" and r: "promise_all_map f xs = Inr ys'"
    and ys: "ys = y # ys'"
    by (auto split: sum.splits)
  from Cons.IH [OF r] y ys show ?case
    by (auto simp: nth_Cons split: nat.splits)
qed

lemma server_entry_modules:
  "server_entry pb d cfg server = Inr e \<Longrightarrow>
   \<exists>modules. transformModsToModules pb d (getMods d (s_serverId server)) server = Inr modules \<and>
     get_key e ''modules'' = Some (JArr modules)"
  by (auto simp: server_entry_def get_key_def split: sum.splits)

lemma manifest_modules:
  assumes "get_distribution le pb d = Response 200 doc" and "k < length (getServers le d)"
  shows "\<exists>entries modules.
     get_key doc ''servers'' = Some (JArr entries) \<and>
     length entries = length (getServers le d) \<and>
     get_key (entries ! k) ''modules'' = Some (JArr modules) \<and>
     transformModsToModules pb d (getMods d (s_serverId (getServers le d ! k)))
       (getServers le d ! k) = Inr modules"
proof -
  from assms(1) obtain cfg entries where
    p: "promise_all_map (server_entry pb d cfg) (getServers le d) = Inr entries"
    and doc: "doc = distribution cfg entries"
    by (auto simp: get_distribution_def split: option.splits sum.splits)
  from promise_all_map_Inr [OF p] assms(2)
  have len: "length entries = length (getServers le d)"
    and e: "server_entry pb d cfg (getServers le d ! k) = Inr (entries ! k)"
    by simp_all
  from server_entry_modules [OF e] obtain modules where
    t: "transformModsToModules pb d (getMods d (s_serverId (getServers le d ! k)))
          (getServers le d ! k) = Inr modules"
    and m: "get_key (entries ! k) ''modules'' = Some (JArr modules)"
    by blast
  have "get_key doc ''servers'' = Some (JArr entries)"
    by (simp add: doc distribution_def get_key_def)
  with len m t show ?thesis by blast
qed

text \<open>The mods, the modules and the manifest of \<open>mixed_mods_db\<close>.\<close>

lemma mixed_mods_rows:
  "map m_modId (getMods mixed_mods_db ''alpha'') = [''sodium'', ''iris'', ''lithium''] \<and>
   map m_required (getMods mixed_mods_db ''alpha'') = [Some True, Some False, None] \<and>
   map m_optionalDefault (getMods mixed_mods_db ''alpha'') =
     [Some False, Some True, Some False] \<and>
   map m_url (getMods mixed_mods_db ''alpha'') =
     [''https://example.org/sodium.jar'', ''https://example.org/sodium.jar'',
      ''https://example.org/sodium.jar''] \<and>
   length (getMods mixed_mods_db ''alpha'') = 3"
  by (simp add: getMods_def select_where_eq mixed_mods_db_def one_server_db_def empty_db_def
      mod_with_required_def)

lemma mixed_mods_servers:
  "getServers byte_le mixed_mods_db = [server_row 1 ''alpha'' ''Alpha''] \<and>
   s_serverId (server_row 1 ''alpha'' ''Alpha'') = ''alpha''"
  by (simp add: getServers_def order_by_def mixed_mods_db_def one_server_db_def empty_db_def
      server_row_def)

lemma mixed_mods_modules:
  "transformModsToModules None mixed_mods_db (getMods mixed_mods_db ''alpha'')
     (server_row 1 ''alpha'' ''Alpha'') =
     Inr [JObj [(''id'', JStr ''sodium''), (''name'', JStr ''Sodium''),
                (''type'', JStr ''FabricMod''),
                (''artifact'', JObj [(''size'', JNum 10),
                                     (''url'', JStr ''/uploads/alpha/mods/sodium''),
                                     (''MD5'', JStr [])])],
          JObj [(''id'', JStr ''iris''), (''name'', JStr ''Iris''),
                (''type'', JStr ''FabricMod''),
                (''artifact'', JObj [(''size'', JNum 10),
                                     (''url'', JStr ''/uploads/alpha/mods/iris''),
                                     (''MD5'', JStr [])]),
                (''required'', JObj [(''value'', JBool False)])],
          JObj [(''id'', JStr ''lithium''), (''name'', JStr ''Lithium''),
                (''type'', JStr ''FabricMod''),
                (''artifact'', JObj [(''size'', JNum 10),
                                     (''url'', JStr ''/uploads/alpha/mods/lithium''),
                                     (''MD5'', JStr [])]),
                (''required'', JObj [(''value'', JBool False)])]]"
  by (simp add: transformModsToModules_def mods_forEach_map files_forEach_unbound
      getFiles_all getMods_def select_where_eq mixed_mods_db_def one_server_db_def
      empty_db_def mod_with_required_def mod_module_def baseModule_def truthy_def
      server_row_def file_row_def or_num_def or_str_def)

lemma mixed_mods_manifest:
  "get_distribution byte_le None mixed_mods_db =
     Response 200
      (JObj
        [(''version'', JStr ''1.0.0''), (''rss'', JStr []),
         (''discord'',
          JObj [(''clientId'', JStr []), (''smallImageText'', JStr ''logo''),
                (''smallImageKey'', JStr ''logo'')]),
         (''servers'',
          JArr
           [JObj
             [(''id'', JStr ''alpha''), (''name'', JStr ''Alpha''),
              (''description'', JStr []), (''icon'', JStr []),
              (''version'', JStr ''1.0.0''), (''address'', JStr []),
              (''minecraftVersion'', JStr ''1.20.1''),
              (''discord'',
               JObj [(''shortId'', JStr []), (''largeImageText'', JStr ''logo''),
                     (''largeImageKey'', JStr ''logo_without_background'')]),
              (''mainServer'', JBool False), (''autoconnect'', JBool False),
              (''modules'',
               JArr
                [JObj
                  [(''id'', JStr ''sodium''), (''name'', JStr ''Sodium''),
                   (''type'', JStr ''FabricMod''),
                   (''artifact'',
                    JObj [(''size'', JNum 10), (''url'', JStr ''/uploads/alpha/mods/sodium''),
                          (''MD5'', JStr [])])],
                 JObj
                  [(''id'', JStr ''iris''), (''name'', JStr ''Iris''),
                   (''type'', JStr ''FabricMod''),
                   (''artifact'',
                    JObj [(''size'', JNum 10), (''url'', JStr ''/uploads/alpha/mods/iris''),
                          (''MD5'', JStr [])]),
                   (''required'', JObj [(''value'', JBool False)])],
                 JObj
                  [(''id'', JStr ''lithium''), (''name'', JStr ''Lithium''),
                   (''type'', JStr ''FabricMod''),
                   (''artifact'',
                    JObj [(''size'', JNum 10), (''url'', JStr ''/uploads/alpha/mods/lithium''),
                          (''MD5'', JStr [])]),
                   (''required'', JObj [(''value'', JBool False)])]])]])])"
  by (simp add: get_distribution_def getApiConfig_def first_row_def distribution_def
      server_entry_def getServers_def order_by_def transformModsToModules_def mods_forEach_map
      files_forEach_unbound getFiles_all getMods_def select_where_eq
      mixed_mods_db_def one_server_db_def empty_db_def mod_with_required_def
      mod_module_def baseModule_def truthy_def server_row_def file_row_def api_config_row_def
      or_num_def or_str_def json_bool_def)

text \<open>
  Claim C2, as amended. Let \<open>modules\<close> be what \<open>transformModsToModules\<close> returns for a
  server and its mods \<open>ms\<close>. The entry of the i-th mod is the i-th module, and it carries
  the marker field \<open>required\<close>, with the value \<open>{value: false}\<close>, if and only if the mod's
  \<open>required\<close> flag is not true, that is, false or null; for a mod with
  \<open>required = true\<close> the field is absent. The value of \<open>optionalDefault\<close> plays no part:
  the modules are the same whatever it is. And when the server is the k-th server of the
  manifest and \<open>ms\<close> its mods, \<open>modules\<close> is the list under \<open>modules\<close> of the k-th entry
  of \<open>servers\<close> in the document the endpoint sends.
\<close>

theorem optional_marker_iff_not_required:
  assumes "transformModsToModules pb d ms server = Inr modules" and "i < length ms"
  shows "i < length modules \<and>
     get_key (modules ! i) ''required'' =
       (if m_required (ms ! i) = Some True then None else Some (JObj [(''value'', JBool False)])) \<and>
     (has_key (modules ! i) ''required'' \<longleftrightarrow> m_required (ms ! i) \<noteq> Some True) \<and>
     transformModsToModules pb d (map (\<lambda>m. m\<lparr>m_optionalDefault := od m\<rparr>) ms) server =
       Inr modules \<and>
     (get_distribution le pb d = Response 200 doc \<and> k < length (getServers le d) \<and>
      server = getServers le d ! k \<and> ms = getMods d (s_serverId server) \<longrightarrow>
        (\<exists>entries. get_key doc ''servers'' = Some (JArr entries) \<and>
           get_key (entries ! k) ''modules'' = Some (JArr modules)))"
proof -
  from transformModsToModules_mod_entries [OF assms]
  have i: "i < length modules" and e: "modules ! i = mod_module server (ms ! i)"
    by simp_all
  have g: "get_key (mod_module server (ms ! i)) ''required'' =
      (if m_required (ms ! i) = Some True then None else Some (JObj [(''value'', JBool False)]))"
    by (simp add: get_key_def mod_module_def baseModule_def truthy_def)
  have h: "has_key (mod_module server (ms ! i)) ''required'' \<longleftrightarrow> m_required (ms ! i) \<noteq> Some True"
    by (simp add: has_key_def mod_module_def baseModule_def truthy_def)
  have "mod_module server (m\<lparr>m_optionalDefault := x\<rparr>) = mod_module server m" for m x
    by (simp add: mod_module_def baseModule_def)
  then have o: "transformModsToModules pb d (map (\<lambda>m. m\<lparr>m_optionalDefault := od m\<rparr>) ms) server =
      Inr modules"
    using assms(1) by (simp add: transformModsToModules_def mods_forEach_map comp_def)
  have m: "\<exists>entries. get_key doc ''servers'' = Some (JArr entries) \<and>
      get_key (entries ! k) ''modules'' = Some (JArr modules)"
    if "get_distribution le pb d = Response 200 doc" "k < length (getServers le d)"
      "server = getServers le d ! k" "ms = getMods d (s_serverId server)"
    using manifest_modules [OF that(1,2)] that(3,4) assms(1) by auto
  from i e g h o m show ?thesis by simp
qed

text \<open>
  C2 on data: the manifest of \<open>mixed_mods_db\<close>, whose server \<open>alpha\<close> is the first
  server of the manifest. The entry of the required mod \<open>sodium\<close> has no marker, the
  entry of the optional mod \<open>iris\<close> has it, and the document the endpoint sends holds
  these entries.
\<close>

theorem optional_marker_iff_not_required_witness:
  "transformModsToModules None mixed_mods_db (getMods mixed_mods_db ''alpha'')
     (server_row 1 ''alpha'' ''Alpha'') =
     Inr [JObj [(''id'', JStr ''sodium''), (''name'', JStr ''Sodium''),
                (''type'', JStr ''FabricMod''),
                (''artifact'', JObj [(''size'', JNum 10),
                                     (''url'', JStr ''/uploads/alpha/mods/sodium''),
                                     (''MD5'', JStr [])])],
          JObj [(''id'', JStr ''iris''), (''name'', JStr ''Iris''),
                (''type'', JStr ''FabricMod''),
                (''artifact'', JObj [(''size'', JNum 10),
                                     (''url'', JStr ''/uploads/alpha/mods/iris''),
                                     (''MD5'', JStr [])]),
                (''required'', JObj [(''value'', JBool False)])],
          JObj [(''id'', JStr ''lithium''), (''name'', JStr ''Lithium''),
                (''type'', JStr ''FabricMod''),
                (''artifact'', JObj [(''size'', JNum 10),
                                     (''url'', JStr ''/uploads/alpha/mods/lithium''),
                                     (''MD5'', JStr [])]),
                (''required'', JObj [(''value'', JBool False)])]] \<and>
   map m_required (getMods mixed_mods_db ''alpha'') = [Some True, Some False, None] \<and>
   map m_optionalDefault (getMods mixed_mods_db ''alpha'') =
     [Some False, Some True, Some False] \<and>
   status (get_distribution byte_le None mixed_mods_db) = 200 \<and>
   getServers byte_le mixed_mods_db ! 0 = server_row 1 ''alpha'' ''Alpha'' \<and>
   (\<exists>entries modules.
      get_key (body (get_distribution byte_le None mixed_mods_db)) ''servers'' =
        Some (JArr entries) \<and>
      get_key (entries ! 0) ''modules'' = Some (JArr modules) \<and>
      get_key (modules ! 0) ''required'' = None \<and>
      get_key (modules ! 1) ''required'' = Some (JObj [(''value'', JBool False)]))"
proof -
  define ms where "ms = getMods mixed_mods_db ''alpha''"
  define server where "server = server_row 1 ''alpha'' ''Alpha''"
  define doc where "doc = body (get_distribution byte_le None mixed_mods_db)"
  from mixed_mods_modules obtain modules where
    t: "transformModsToModules None mixed_mods_db ms server = Inr modules"
    unfolding ms_def server_def by blast
  have l: "0 < length ms" "1 < length ms"
    using mixed_mods_rows by (simp_all add: ms_def)
  have r: "m_required (ms ! 0) = Some True" "m_required (ms ! 1) = Some False"
    using mixed_mods_rows l
    by (simp_all add: ms_def nth_map [symmetric, of _ _ m_required] del: nth_map)
  have d: "get_distribution byte_le None mixed_mods_db = Response 200 doc"
    by (simp add: doc_def mixed_mods_manifest)
  have k: "0 < length (getServers byte_le mixed_mods_db)"
    and s: "server = getServers byte_le mixed_mods_db ! 0"
    and g: "ms = getMods mixed_mods_db (s_serverId server)"
    using mixed_mods_servers by (simp_all add: server_def ms_def)
  note first = optional_marker_iff_not_required
      [OF t l(1), where le = byte_le and doc = doc and k = 0]
  note second = optional_marker_iff_not_required
      [OF t l(2), where le = byte_le and doc = doc and k = 0]
  from first d k s g obtain entries where
    e: "get_key doc ''servers'' = Some (JArr entries)"
      "get_key (entries ! 0) ''modules'' = Some (JArr modules)"
    by blast
  from first r(1) have m0: "get_key (modules ! 0) ''required'' = None"
    by simp
  from second r(2) have m1: "get_key (modules ! 1) ''required'' = Some (JObj [(''value'', JBool False)])"
    by simp
  have x: "\<exists>entries modules.
      get_key doc ''servers'' = Some (JArr entries) \<and>
      get_key (entries ! 0) ''modules'' = Some (JArr modules) \<and>
      get_key (modules ! 0) ''required'' = None \<and>
      get_key (modules ! 1) ''required'' = Some (JObj [(''value'', JBool False)])"
    using e m0 m1 by blast
  have st: "status (get_distribution byte_le None mixed_mods_db) = 200"
    by (simp add: d)
  show ?thesis
    using mixed_mods_modules mixed_mods_rows mixed_mods_servers x st
    by (simp add: doc_def)
qed

text \<open>
  Claim C2 as stated ties the marker to \<open>required = false\<close>. The column is nullable: the
  third mod of server \<open>alpha\<close> in \<open>mixed_mods_db\<close> has the flag null, not false, and
  its entry in the manifest the endpoint sends carries the marker.
\<close>

theorem optional_marker_null_counterexample:
  "m_required (getMods mixed_mods_db ''alpha'' ! 2) = None \<and>
   m_modId (getMods mixed_mods_db ''alpha'' ! 2) = ''lithium'' \<and>
   get_distribution byte_le None mixed_mods_db =
     Response 200
      (JObj
        [(''version'', JStr ''1.0.0''), (''rss'', JStr []),
         (''discord'',
          JObj [(''clientId'', JStr []), (''smallImageText'', JStr ''logo''),
                (''smallImageKey'', JStr ''logo'')]),
         (''servers'',
          JArr
           [JObj
             [(''id'', JStr ''alpha''), (''name'', JStr ''Alpha''),
              (''description'', JStr []), (''icon'', JStr []),
              (''version'', JStr ''1.0.0''), (''address'', JStr []),
              (''minecraftVersion'', JStr ''1.20.1''),
              (''discord'',
               JObj [(''shortId'', JStr []), (''largeImageText'', JStr ''logo''),
                     (''largeImageKey'', JStr ''logo_without_background'')]),
              (''mainServer'', JBool False), (''autoconnect'', JBool False),
              (''modules'',
               JArr
                [JObj
                  [(''id'', JStr ''sodium''), (''name'', JStr ''Sodium''),
                   (''type'', JStr ''FabricMod''),
                   (''artifact'',
                    JObj [(''size'', JNum 10), (''url'', JStr ''/uploads/alpha/mods/sodium''),
                          (''MD5'', JStr [])])],
                 JObj
                  [(''id'', JStr ''iris''), (''name'', JStr ''Iris''),
                   (''type'', JStr ''FabricMod''),
                   (''artifact'',
                    JObj [(''size'', JNum 10), (''url'', JStr ''/uploads/alpha/mods/iris''),
                          (''MD5'', JStr [])]),
                   (''required'', JObj [(''value'', JBool False)])],
                 JObj
                  [(''id'', JStr ''lithium''), (''name'', JStr ''Lithium''),
                   (''type'', JStr ''FabricMod''),
                   (''artifact'',
                    JObj [(''size'', JNum 10), (''url'', JStr ''/uploads/alpha/mods/lithium''),
                          (''MD5'', JStr [])]),
                   (''required'', JObj [(''value'', JBool False)])]])]])])"
proof -
  have "2 < length (getMods mixed_mods_db ''alpha'')"
    using mixed_mods_rows by simp
  then have "m_required (getMods mixed_mods_db ''alpha'' ! 2) =
      map m_required (getMods mixed_mods_db ''alpha'') ! 2"
    and "m_modId (getMods mixed_mods_db ''alpha'' ! 2) =
      map m_modId (getMods mixed_mods_db ''alpha'') ! 2"
    by simp_all
  then show ?thesis
    using mixed_mods_rows mixed_mods_manifest by simp
qed

lemma mod_module_url: "mod_module server (m\<lparr>m_url := u\<rparr>) = mod_module server m"
  by (simp add: mod_module_def baseModule_def)

lemma getMods_url:
  "getMods (d\<lparr>mods := map (\<lambda>m. m\<lparr>m_url := g m\<rparr>) (mods d)\<rparr>) s =
     map (\<lambda>m. m\<lparr>m_url := g m\<rparr>) (getMods d s)"
  by (simp add: getMods_def select_where_eq filter_map comp_def)

lemma transformModsToModules_url:
  "transformModsToModules pb (d\<lparr>mods := ms'\<rparr>) (map (\<lambda>m. m\<lparr>m_url := g m\<rparr>) ms) server =
     transformModsToModules pb d ms server"
  by (simp add: transformModsToModules_def mods_forEach_map getFiles_def mod_module_url comp_def)

lemma server_entry_url:
  "server_entry pb (d\<lparr>mods := map (\<lambda>m. m\<lparr>m_url := g m\<rparr>) (mods d)\<rparr>) cfg =
     server_entry pb d cfg"
  by (rule ext) (simp add: server_entry_def getMods_url transformModsToModules_url)

text \<open>
  Claim C10. Let \<open>modules\<close> be what \<open>transformModsToModules\<close> returns for a server and
  its mods \<open>ms\<close>. The entry of the i-th mod is the i-th module, and its artifact has the
  download URL \<open>/uploads/<serverId>/mods/<modId>\<close>, built from the server and the mod
  identifier; when the server is the k-th server of the manifest and \<open>ms\<close> its mods,
  \<open>modules\<close> is the list under \<open>modules\<close> of the k-th entry of \<open>servers\<close> in the
  document the endpoint sends. The stored \<open>url\<close> column is not used: replacing the url
  of every mod row by anything else leaves the response of the endpoint unchanged.
\<close>

theorem mod_url_constructed:
  "(transformModsToModules pb d ms server = Inr modules \<and> i < length ms \<longrightarrow>
      i < length modules \<and>
      get_key (modules ! i) ''artifact'' =
        Some (JObj [(''size'', JNum (or_num (m_size (ms ! i)) 0)),
                    (''url'', JStr (''/uploads/'' @ s_serverId server @ ''/mods/'' @ m_modId (ms ! i))),
                    (''MD5'', JStr (or_str (m_md5 (ms ! i)) []))]) \<and>
      (get_distribution le pb d = Response 200 doc \<and> k < length (getServers le d) \<and>
       server = getServers le d ! k \<and> ms = getMods d (s_serverId server) \<longrightarrow>
         (\<exists>entries. get_key doc ''servers'' = Some (JArr entries) \<and>
            get_key (entries ! k) ''modules'' = Some (JArr modules)))) \<and>
   get_distribution le pb (d\<lparr>mods := map (\<lambda>m. m\<lparr>m_url := g m\<rparr>) (mods d)\<rparr>) =
     get_distribution le pb d"
proof -
  have a: "i < length modules \<and>
      get_key (modules ! i) ''artifact'' =
        Some (JObj [(''size'', JNum (or_num (m_size (ms ! i)) 0)),
                    (''url'', JStr (''/uploads/'' @ s_serverId server @ ''/mods/'' @ m_modId (ms ! i))),
                    (''MD5'', JStr (or_str (m_md5 (ms ! i)) []))])"
    if t: "transformModsToModules pb d ms server = Inr modules" and i: "i < length ms"
    using transformModsToModules_mod_entries [OF t i]
    by (simp add: get_key_def mod_module_def baseModule_def)
  have b: "\<exists>entries. get_key doc ''servers'' = Some (JArr entries) \<and>
      get_key (entries ! k) ''modules'' = Some (JArr modules)"
    if "transformModsToModules pb d ms server = Inr modules"
      "get_distribution le pb d = Response 200 doc" "k < length (getServers le d)"
      "server = getServers le d ! k" "ms = getMods d (s_serverId server)"
    using manifest_modules [OF that(2,3)] that(1,4,5) by auto
  have c: "get_distribution le pb (d\<lparr>mods := map (\<lambda>m. m\<lparr>m_url := g m\<rparr>) (mods d)\<rparr>) =
      get_distribution le pb d"
    by (simp add: get_distribution_def server_entry_url getApiConfig_def getServers_def
        split: option.split)
  from a b c show ?thesis by blast
qed

text \<open>
  C10 on data: the manifest of \<open>mixed_mods_db\<close>, whose server \<open>alpha\<close> is the first
  server of the manifest. The stored url of the mod \<open>sodium\<close> is
  \<open>https://example.org/sodium.jar\<close>; the url of its entry, in the document the
  endpoint sends, is the constructed one.
\<close>

theorem mod_url_constructed_witness:
  "map m_url (getMods mixed_mods_db ''alpha'') =
     [''https://example.org/sodium.jar'', ''https://example.org/sodium.jar'',
      ''https://example.org/sodium.jar''] \<and>
   status (get_distribution byte_le None mixed_mods_db) = 200 \<and>
   getServers byte_le mixed_mods_db ! 0 = server_row 1 ''alpha'' ''Alpha'' \<and>
   (\<exists>entries modules.
      get_key (body (get_distribution byte_le None mixed_mods_db)) ''servers'' =
        Some (JArr entries) \<and>
      get_key (entries ! 0) ''modules'' = Some (JArr modules) \<and>
      transformModsToModules None mixed_mods_db (getMods mixed_mods_db ''alpha'')
        (server_row 1 ''alpha'' ''Alpha'') = Inr modules \<and>
      get_key (modules ! 0) ''artifact'' =
        Some (JObj [(''size'', JNum 10), (''url'', JStr ''/uploads/alpha/mods/sodium''),
                    (''MD5'', JStr [])]))"
proof -
  define ms where "ms = getMods mixed_mods_db ''alpha''"
  define server where "server = server_row 1 ''alpha'' ''Alpha''"
  define doc where "doc = body (get_distribution byte_le None mixed_mods_db)"
  from mixed_mods_modules obtain modules where
    t: "transformModsToModules None mixed_mods_db ms server = Inr modules"
    unfolding ms_def server_def by blast
  have l: "0 < length ms"
    using mixed_mods_rows by (simp add: ms_def)
  have r: "m_modId (ms ! 0) = ''sodium''"
    using mixed_mods_rows l
    by (simp add: ms_def nth_map [symmetric, of _ _ m_modId] del: nth_map)
  have z: "or_num (m_size (ms ! 0)) 0 = 10 \<and> or_str (m_md5 (ms ! 0)) [] = []"
    by (simp add: ms_def getMods_def select_where_eq mixed_mods_db_def one_server_db_def
        empty_db_def mod_with_required_def or_num_def or_str_def)
  have d: "get_distribution byte_le None mixed_mods_db = Response 200 doc"
    by (simp add: doc_def mixed_mods_manifest)
  have k: "0 < length (getServers byte_le mixed_mods_db)"
    and s: "server = getServers byte_le mixed_mods_db ! 0"
    and g: "ms = getMods mixed_mods_db (s_serverId server)"
    and i: "s_serverId server = ''alpha''"
    using mixed_mods_servers by (simp_all add: server_def ms_def)
  note inst = mod_url_constructed
      [where pb = None and d = mixed_mods_db and ms = ms and server = server
        and modules = modules and i = 0 and le = byte_le and doc = doc and k = 0]
  from inst t l d k s g obtain entries where
    e: "get_key doc ''servers'' = Some (JArr entries)"
      "get_key (entries ! 0) ''modules'' = Some (JArr modules)"
    by blast
  from inst t l r z i have a: "get_key (modules ! 0) ''artifact'' =
      Some (JObj [(''size'', JNum 10), (''url'', JStr ''/uploads/alpha/mods/sodium''),
                  (''MD5'', JStr [])])"
    by simp
  have x: "\<exists>entries modules.
      get_key doc ''servers'' = Some (JArr entries) \<and>
      get_key (entries ! 0) ''modules'' = Some (JArr modules) \<and>
      transformModsToModules None mixed_mods_db ms server = Inr modules \<and>
      get_key (modules ! 0) ''artifact'' =
        Some (JObj [(''size'', JNum 10), (''url'', JStr ''/uploads/alpha/mods/sodium''),
                    (''MD5'', JStr [])])"
    using e t a by blast
  have st: "status (get_distribution byte_le None mixed_mods_db) = 200"
    by (simp add: d)
  show ?thesis
    using mixed_mods_rows mixed_mods_servers x st
    by (simp add: doc_def ms_def server_def)
qed

text \<open>
  Claim C7: without an ApiConfig row the manifest endpoint answers 500 with the
  configuration error alone, no part of the manifest; with a row, the manifest that is
  sent has \<open>rss\<close> and the \<open>discord\<close> fields taken from the row, an unset field replaced
  by the empty string, or by \<open>logo\<close> for the two small-image fields.
\<close>

theorem distribution_config:
  "(getApiConfig d = None \<longrightarrow>
      get_distribution le pb d =
        Response 500 (JObj [(''error'', JStr ''API configuration not found'')])) \<and>
   (getApiConfig d = Some cfg \<and> status (get_distribution le pb d) = 200 \<longrightarrow>
      get_key (body (get_distribution le pb d)) ''rss'' =
        Some (JStr (case ac_rssUrl cfg of None \<Rightarrow> [] | Some u \<Rightarrow> u)) \<and>
      get_key (body (get_distribution le pb d)) ''discord'' =
        Some (JObj
          [(''clientId'', JStr (case ac_discordClientId cfg of None \<Rightarrow> [] | Some i \<Rightarrow> i)),
           (''smallImageText'',
              JStr (case ac_discordSmallImageText cfg of
                      None \<Rightarrow> ''logo'' | Some t \<Rightarrow> if t = [] then ''logo'' else t)),
           (''smallImageKey'',
              JStr (case ac_discordSmallImageKey cfg of
                      None \<Rightarrow> ''logo'' | Some k \<Rightarrow> if k = [] then ''logo'' else k))]))"
  by (simp add: get_distribution_def distribution_def get_key_def or_str_def
      split: option.split sum.split)

text \<open>
  Both cases of C7 on data: the empty database has no ApiConfig row; \<open>one_server_db\<close>
  has a row with every field unset, and its manifest is sent.
\<close>

theorem distribution_config_witness:
  "get_distribution byte_le None empty_db =
     Response 500 (JObj [(''error'', JStr ''API configuration not found'')]) \<and>
   getApiConfig one_server_db = Some api_config_row \<and>
   status (get_distribution byte_le None one_server_db) = 200 \<and>
   get_key (body (get_distribution byte_le None one_server_db)) ''rss'' = Some (JStr []) \<and>
   get_key (body (get_distribution byte_le None one_server_db)) ''discord'' =
     Some (JObj [(''clientId'', JStr []), (''smallImageText'', JStr ''logo''),
                 (''smallImageKey'', JStr ''logo'')])"
proof -
  have a: "getApiConfig empty_db = None"
    by (simp add: getApiConfig_def first_row_def empty_db_def)
  have b: "getApiConfig one_server_db = Some api_config_row"
    by (simp add: getApiConfig_def first_row_def one_server_db_def empty_db_def)
  have c: "status (get_distribution byte_le None one_server_db) = 200"
    by (simp add: get_distribution_def getApiConfig_def first_row_def
      server_entry_def getServers_def order_by_def transformModsToModules_def
      files_forEach_unbound getFiles_all
      one_server_db_def empty_db_def server_row_def file_row_def truthy_def)
  show ?thesis
    using distribution_config [of empty_db byte_le None api_config_row]
      distribution_config [of one_server_db byte_le None api_config_row] a b c
    by (simp add: api_config_row_def)
qed

section \<open>Properties of server creation\<close>

lemma createMod_ok:
  "nm_serverId i \<in> set (map s_serverId (servers d)) \<Longrightarrow>
   \<exists>row. createMod now i d =
       Inr (row, d\<lparr>mods := mods d @ [row], mods_seq := Suc (mods_seq d)\<rparr>) \<and>
     m_serverId row = nm_serverId i \<and> m_modId row = nm_modId i \<and> m_type row = nm_type i \<and>
     m_url row = nm_url i \<and> m_name row = nm_name i \<and>
     m_required row = or_default (nm_required i) (Some True)"
  by (simp add: createMod_def Let_def)

text \<open>
  Claim C3, as amended: a successful \<open>createServer\<close> inserts the server row and then
  exactly two mod rows for it, of type Library, required, with the two fixed mod ids and
  maven URLs, and nothing else into the two tables. The three inserts are three statements
  that commit one after the other, not one atomic step: the call commits three states,
  the server alone, the server with the loader, the server with both libraries.
\<close>

theorem createServer_seeds_libraries:
  assumes "fst (createServer_run now insertServer d) = Inr server"
  shows "\<exists>loader intermediary.
     map servers (snd (createServer_run now insertServer d)) =
       [servers d @ [server], servers d @ [server], servers d @ [server]] \<and>
     map mods (snd (createServer_run now insertServer d)) =
       [mods d, mods d @ [loader], mods d @ [loader, intermediary]] \<and>
     servers (snd (createServer now insertServer d)) = servers d @ [server] \<and>
     mods (snd (createServer now insertServer d)) = mods d @ [loader, intermediary] \<and>
     s_serverId server = ns_serverId insertServer \<and>
     map m_serverId [loader, intermediary] = [s_serverId server, s_serverId server] \<and>
     map m_modId [loader, intermediary] =
       [''net.fabricmc:fabric-loader:0.16.13'', ''net.fabricmc:intermediary:1.20.1''] \<and>
     map m_url [loader, intermediary] =
       [''https://maven.fabricmc.net/net/fabricmc/fabric-loader/0.16.13/fabric-loader-0.16.13.jar'',
        ''https://maven.fabricmc.net/net/fabricmc/intermediary/1.20.1/intermediary-1.20.1.jar''] \<and>
     map m_type [loader, intermediary] = [''Library'', ''Library''] \<and>
     map m_required [loader, intermediary] = [Some True, Some True]"
proof -
  from assms obtain d1 where ins: "insert_server now insertServer d = Inr (server, d1)"
    by (auto simp: createServer_run_def split: sum.splits prod.splits option.splits)
  have d1: "d1 = d\<lparr>servers := servers d @ [server], servers_seq := Suc (servers_seq d)\<rparr>"
    using ins by (auto simp: insert_server_def Let_def split: if_splits)
  have sid: "s_serverId server = ns_serverId insertServer"
    using ins by (auto simp: insert_server_def Let_def split: if_splits)
  define i1 where "i1 = library_mod server (defaultLibraries ! 0)"
  define i2 where "i2 = library_mod server (defaultLibraries ! 1)"
  have fk1: "nm_serverId i1 \<in> set (map s_serverId (servers d1))"
    by (simp add: d1 i1_def library_mod_def)
  obtain l1 where
    l1: "createMod now i1 d1 = Inr (l1, d1\<lparr>mods := mods d1 @ [l1], mods_seq := Suc (mods_seq d1)\<rparr>)"
    and p1: "m_serverId l1 = nm_serverId i1" "m_modId l1 = nm_modId i1" "m_type l1 = nm_type i1"
      "m_url l1 = nm_url i1" "m_required l1 = or_default (nm_required i1) (Some True)"
    using createMod_ok [of i1 d1 now] fk1 by blast
  define d2 where "d2 = d1\<lparr>mods := mods d1 @ [l1], mods_seq := Suc (mods_seq d1)\<rparr>"
  have fk2: "nm_serverId i2 \<in> set (map s_serverId (servers d2))"
    by (simp add: d2_def d1 i2_def library_mod_def)
  obtain l2 where
    l2: "createMod now i2 d2 = Inr (l2, d2\<lparr>mods := mods d2 @ [l2], mods_seq := Suc (mods_seq d2)\<rparr>)"
    and p2: "m_serverId l2 = nm_serverId i2" "m_modId l2 = nm_modId i2" "m_type l2 = nm_type i2"
      "m_url l2 = nm_url i2" "m_required l2 = or_default (nm_required i2) (Some True)"
    using createMod_ok [of i2 d2 now] fk2 by blast
  define d3 where "d3 = d2\<lparr>mods := mods d2 @ [l2], mods_seq := Suc (mods_seq d2)\<rparr>"
  have run: "createServer_run now insertServer d = (Inr server, [d1, d2, d3])"
    using ins l1 l2
    by (simp add: createServer_run_def defaultLibraries_def i1_def i2_def d2_def d3_def)
  have shape: "map servers [d1, d2, d3] =
        [servers d @ [server], servers d @ [server], servers d @ [server]] \<and>
      map mods [d1, d2, d3] = [mods d, mods d @ [l1], mods d @ [l1, l2]]"
    by (simp add: d3_def d2_def d1)
  have rows: "map m_serverId [l1, l2] = [s_serverId server, s_serverId server] \<and>
      map m_modId [l1, l2] =
        [''net.fabricmc:fabric-loader:0.16.13'', ''net.fabricmc:intermediary:1.20.1''] \<and>
      map m_url [l1, l2] =
        [''https://maven.fabricmc.net/net/fabricmc/fabric-loader/0.16.13/fabric-loader-0.16.13.jar'',
         ''https://maven.fabricmc.net/net/fabricmc/intermediary/1.20.1/intermediary-1.20.1.jar''] \<and>
      map m_type [l1, l2] = [''Library'', ''Library''] \<and>
      map m_required [l1, l2] = [Some True, Some True]"
    by (simp add: p1 p2 i1_def i2_def library_mod_def defaultLibraries_def or_default_def)
  have final: "snd (createServer now insertServer d) = d3"
    by (simp add: createServer_def run)
  show ?thesis
    using shape rows sid final run by (intro exI [of _ l1] exI [of _ l2]) simp
qed

text \<open>C3 on data: creating the server \<open>alpha\<close> in the empty database at time 7.\<close>

theorem createServer_seeds_libraries_witness:
  "fst (createServer_run 7 (new_server ''alpha'') empty_db) =
     Inr ((server_row 1 ''alpha'' ''Alpha'')\<lparr>s_createdAt := 7, s_updatedAt := 7\<rparr>) \<and>
   map m_modId (mods (snd (createServer 7 (new_server ''alpha'') empty_db))) =
     [''net.fabricmc:fabric-loader:0.16.13'', ''net.fabricmc:intermediary:1.20.1'']"
proof -
  have a: "fst (createServer_run 7 (new_server ''alpha'') empty_db) =
     Inr ((server_row 1 ''alpha'' ''Alpha'')\<lparr>s_createdAt := 7, s_updatedAt := 7\<rparr>)"
    by (simp add: createServer_run_def insert_server_def createMod_def defaultLibraries_def
      library_mod_def new_server_def empty_db_def or_default_def Let_def server_row_def)
  have b: "mods empty_db = []" by (simp add: empty_db_def)
  show ?thesis
    using createServer_seeds_libraries [OF a] a b by auto
qed

text \<open>
  Claim C3 as stated has the library rows created atomically with the server row. The
  call succeeds on the empty database, commits three times, and the first state it
  commits holds the server \<open>alpha\<close> and no mod row.
\<close>

theorem createServer_not_atomic_counterexample:
  "\<not> isl (fst (createServer_run 7 (new_server ''alpha'') empty_db)) \<and>
   length (snd (createServer_run 7 (new_server ''alpha'') empty_db)) = 3 \<and>
   map s_serverId (servers (hd (snd (createServer_run 7 (new_server ''alpha'') empty_db)))) =
     [''alpha''] \<and>
   mods (hd (snd (createServer_run 7 (new_server ''alpha'') empty_db))) = []"
  by (simp add: createServer_run_def insert_server_def createMod_def defaultLibraries_def
      library_mod_def new_server_def empty_db_def or_default_def Let_def)

section \<open>Properties of the file listing\<close>

lemma like_match_percent: "like_match ''%'' s"
  by (induction s) simp_all

lemma like_match_literal:
  "literal p \<Longrightarrow> like_match (p @ q) s = (\<exists>t. s = p @ t \<and> like_match q t)"
proof (induction p arbitrary: s)
  case Nil
  then show ?case by simp
next
  case (Cons c p)
  then have "literal p" and c: "c \<noteq> CHR ''%''" "c \<noteq> CHR ''_''" "c \<noteq> CHR 0x5C"
    by (simp_all add: literal_def)
  with Cons.IH show ?case
    by (cases s) auto
qed

lemma like_match_prefix:
  "literal p \<Longrightarrow> like_match (p @ ''/%'') s = (\<exists>t. s = p @ ''/'' @ t)"
proof -
  assume "literal p"
  then have "literal (p @ ''/'')"
    by (simp add: literal_def)
  from like_match_literal [OF this, of "''%''" s] show ?thesis
    by (simp add: like_match_percent del: like_match.simps)
qed

text \<open>
  What \<open>getFiles\<close> returns for a path without LIKE wildcards: the rows of the server
  below the path, and the rows of any server at the path itself.
\<close>

lemma getFiles_literal:
  "p \<noteq> [] \<Longrightarrow> literal p \<Longrightarrow>
   getFiles d s (Some p) =
     filter (\<lambda>f. (f_serverId f = s \<and> (\<exists>t. f_path f = p @ ''/'' @ t)) \<or> f_path f = p) (files d)"
  by (simp add: getFiles_path like_match_prefix)

text \<open>
  Claim C4 says that \<open>getFiles(s, p)\<close> returns exactly the rows of server \<open>s\<close> whose
  path is \<open>p\<close> or starts with \<open>p/\<close>, and no row of another server. On
  \<open>two_servers_db\<close> the listing of \<open>a/b\<close> for server \<open>alpha\<close> returns the file
  \<open>a/b\<close> of server \<open>beta\<close>, because the OR of the template is not parenthesised; and
  the listing of \<open>a_b\<close> for \<open>alpha\<close> returns \<open>axb/c\<close>, which neither equals
  \<open>a_b\<close> nor starts with \<open>a_b/\<close>, because the path goes into the LIKE pattern
  unescaped.
\<close>

theorem getFiles_returns_foreign_and_wildcard_rows:
  "getFiles two_servers_db ''alpha'' (Some ''a/b'') = [file_row 1 ''beta'' ''a/b'' (Some False)] \<and>
   getFiles two_servers_db ''alpha'' (Some ''a_b'') = [file_row 2 ''alpha'' ''axb/c'' (Some False)]"
  by (simp add: getFiles_path two_servers_db_def empty_db_def file_row_def)

section \<open>Properties of the singleton settings tables\<close>










section \<open>Properties of the stat ingestion route\<close>

lemma first_row_None: "first_row rows = None \<longleftrightarrow> rows = []"
  by (cases rows) (simp_all add: first_row_def)

lemma getServer_None: "getServer d i = None \<longleftrightarrow> i \<notin> set (map s_serverId (servers d))"
  by (auto simp: getServer_def select_where_eq first_row_None filter_empty_conv)

lemma stats_handler_unknown:
  "parse b = Inr statData \<Longrightarrow> getServer d (nst_serverId statData) = None \<Longrightarrow>
   stats_handler parse now b d = (Response 404 (JObj [(''message'', JStr ''Server not found'')]), d)"
  by (simp add: stats_handler_def)

lemma createServerStat_ok:
  "nst_serverId i \<in> set (map s_serverId (servers d)) \<Longrightarrow>
   \<exists>stat. createServerStat now i d =
       Inr (stat, d\<lparr>serverStats := serverStats d @ [stat],
                      serverStats_seq := Suc (serverStats_seq d)\<rparr>) \<and>
     st_serverId stat = nst_serverId i"
  by (simp add: createServerStat_def Let_def)

lemma stats_handler_known:
  "parse b = Inr statData \<Longrightarrow> getServer d (nst_serverId statData) \<noteq> None \<Longrightarrow>
   \<exists>stat. stats_handler parse now b d =
       (Response 201 (stat_json stat),
        d\<lparr>serverStats := serverStats d @ [stat], serverStats_seq := Suc (serverStats_seq d)\<rparr>) \<and>
     st_serverId stat = nst_serverId statData"
proof -
  assume p: "parse b = Inr statData" and k: "getServer d (nst_serverId statData) \<noteq> None"
  from k have m: "nst_serverId statData \<in> set (map s_serverId (servers d))"
    by (simp add: getServer_None)
  from k obtain server where g: "getServer d (nst_serverId statData) = Some server"
    by blast
  from createServerStat_ok [OF m, of now] obtain stat where
    c: "createServerStat now statData d =
       Inr (stat, d\<lparr>serverStats := serverStats d @ [stat],
                      serverStats_seq := Suc (serverStats_seq d)\<rparr>)"
    and i: "st_serverId stat = nst_serverId statData"
    by blast
  show ?thesis
    using p g c i by (intro exI [of _ stat]) (simp add: stats_handler_def)
qed

text \<open>
  Claim C6, as amended: for a POST /api/stats request that the rate limiter admits (its
  client has made fewer than 60 requests in the current window) and whose body passes
  validation, an unknown \<open>serverId\<close> is answered 404 and the database is left as it was,
  and a known \<open>serverId\<close> is answered 201 with the inserted row, the only row added to
  \<open>serverStats\<close>. A request over the limit is answered 429 and changes nothing in the
  database.
\<close>

theorem stats_route_unknown_server:
  assumes "parse req_body = Inr statData"
  shows "(lim client < statsRateLimit_max \<and> getServer d (nst_serverId statData) = None \<longrightarrow>
       fst (post_stats parse now client req_body (lim, d)) =
         Response 404 (JObj [(''message'', JStr ''Server not found'')]) \<and>
       snd (snd (post_stats parse now client req_body (lim, d))) = d) \<and>
     (lim client < statsRateLimit_max \<and> getServer d (nst_serverId statData) \<noteq> None \<longrightarrow>
       (\<exists>stat. fst (post_stats parse now client req_body (lim, d)) = Response 201 (stat_json stat) \<and>
          serverStats (snd (snd (post_stats parse now client req_body (lim, d)))) =
            serverStats d @ [stat] \<and>
          st_serverId stat = nst_serverId statData)) \<and>
     (\<not> lim client < statsRateLimit_max \<longrightarrow>
       fst (post_stats parse now client req_body (lim, d)) =
         Response 429 (JObj [(''error'', JStr ''Too many requests, please try again later'')]) \<and>
       snd (snd (post_stats parse now client req_body (lim, d))) = d)"
proof (intro conjI impI)
  assume a: "lim client < statsRateLimit_max \<and> getServer d (nst_serverId statData) = None"
  then show "fst (post_stats parse now client req_body (lim, d)) =
         Response 404 (JObj [(''message'', JStr ''Server not found'')])"
    using stats_handler_unknown [of parse req_body statData d now] assms
    by (simp add: post_stats_def statsRateLimit_def Let_def)
  from a show "snd (snd (post_stats parse now client req_body (lim, d))) = d"
    using stats_handler_unknown [of parse req_body statData d now] assms
    by (simp add: post_stats_def statsRateLimit_def Let_def)
next
  assume a: "lim client < statsRateLimit_max \<and> getServer d (nst_serverId statData) \<noteq> None"
  then obtain stat where
    h: "stats_handler parse now req_body d =
       (Response 201 (stat_json stat),
        d\<lparr>serverStats := serverStats d @ [stat], serverStats_seq := Suc (serverStats_seq d)\<rparr>)"
    and s: "st_serverId stat = nst_serverId statData"
    using stats_handler_known [of parse req_body statData d now] assms by blast
  show "\<exists>stat. fst (post_stats parse now client req_body (lim, d)) = Response 201 (stat_json stat) \<and>
          serverStats (snd (snd (post_stats parse now client req_body (lim, d)))) =
            serverStats d @ [stat] \<and>
          st_serverId stat = nst_serverId statData"
    using a h s by (intro exI [of _ stat]) (simp add: post_stats_def statsRateLimit_def Let_def)
next
  assume a: "\<not> lim client < statsRateLimit_max"
  then show "fst (post_stats parse now client req_body (lim, d)) =
         Response 429 (JObj [(''error'', JStr ''Too many requests, please try again later'')])"
    by (simp add: post_stats_def statsRateLimit_def Let_def)
  from a show "snd (snd (post_stats parse now client req_body (lim, d))) = d"
    by (simp add: post_stats_def statsRateLimit_def Let_def)
qed

text \<open>
  C6 on data, with a body that is already a valid report: a first request for the unknown
  server \<open>ghost\<close>, a first request for the known server \<open>alpha\<close>, and a request for
  \<open>ghost\<close> from a client that has already made 60 requests in the window.
\<close>

theorem stats_route_unknown_server_witness:
  "fst (post_stats Inr 9 ''10.0.0.1'' (new_stat ''ghost'') (\<lambda>client. 0, one_server_db)) =
     Response 404 (JObj [(''message'', JStr ''Server not found'')]) \<and>
   serverStats (snd (snd (post_stats Inr 9 ''10.0.0.1'' (new_stat ''ghost'')
      (\<lambda>client. 0, one_server_db)))) = [] \<and>
   status (fst (post_stats Inr 9 ''10.0.0.1'' (new_stat ''alpha'') (\<lambda>client. 0, one_server_db))) = 201 \<and>
   map st_serverId (serverStats (snd (snd (post_stats Inr 9 ''10.0.0.1'' (new_stat ''alpha'')
      (\<lambda>client. 0, one_server_db))))) = [''alpha''] \<and>
   status (fst (post_stats Inr 9 ''10.0.0.1'' (new_stat ''ghost'')
      ((\<lambda>client. 0)(''10.0.0.1'' := 60), one_server_db))) = 429"
proof -
  have g: "getServer one_server_db (nst_serverId (new_stat ''ghost'')) = None"
    by (simp add: getServer_None one_server_db_def empty_db_def server_row_def new_stat_def)
  have k: "getServer one_server_db (nst_serverId (new_stat ''alpha'')) \<noteq> None"
    by (simp add: getServer_None one_server_db_def empty_db_def server_row_def new_stat_def)
  have e: "serverStats one_server_db = []"
    by (simp add: one_server_db_def empty_db_def)
  show ?thesis
    using stats_route_unknown_server
        [of Inr "new_stat ''ghost''" "new_stat ''ghost''" "\<lambda>client. 0" "''10.0.0.1''" one_server_db 9]
      stats_route_unknown_server
        [of Inr "new_stat ''alpha''" "new_stat ''alpha''" "\<lambda>client. 0" "''10.0.0.1''" one_server_db 9]
      stats_route_unknown_server
        [of Inr "new_stat ''ghost''" "new_stat ''ghost''" "(\<lambda>client. 0)(''10.0.0.1'' := 60)"
          "''10.0.0.1''" one_server_db 9]
      g k e
    by (auto simp: statsRateLimit_max_def new_stat_def)
qed

text \<open>
  Claim C6 as stated answers every valid report for an unknown server with 404. The
  report for \<open>ghost\<close> is valid and its server unknown, and the 61st request of a client
  within the window is answered 429.
\<close>

theorem stats_route_rate_limited_counterexample:
  "getServer one_server_db (nst_serverId (new_stat ''ghost'')) = None \<and>
   status (fst (post_stats Inr 9 ''10.0.0.1'' (new_stat ''ghost'')
                  ((\<lambda>client. 0)(''10.0.0.1'' := 60), one_server_db))) = 429"
  by (simp add: getServer_None post_stats_def statsRateLimit_def statsRateLimit_max_def Let_def
      one_server_db_def empty_db_def server_row_def new_stat_def)

section \<open>Properties of the stats WebSocket channel\<close>

text \<open>\<open>sendCurrentStats\<close> never throws to its caller, whatever happens inside.\<close>

lemma sendCurrentStats_Inr:
  "\<exists>c'. sendCurrentStats outcome c = Inr c' \<and> initiated c' = Suc (initiated c) \<and>
     statsInterval c' = statsInterval c \<and> listening c' = listening c \<and>
     readyState c' = readyState c"
  by (cases outcome) (simp_all add: sendCurrentStats_def snapshot_and_send_def Let_def)

lemma ws_step_cleared:
  "statsInterval c = None \<Longrightarrow>
     statsInterval (ws_step e c) = None \<and> initiated (ws_step e c) = initiated c"
  by (cases e) (simp_all add: clearInterval_def)

lemma ws_run_cleared:
  "statsInterval c = None \<Longrightarrow>
     statsInterval (ws_run es c) = None \<and> initiated (ws_run es c) = initiated c"
  unfolding ws_run_def
proof (induction es arbitrary: c)
  case Nil
  then show ?case by simp
next
  case (Cons e es)
  from ws_step_cleared [OF Cons.prems, of e] Cons.IH [of "ws_step e c"]
  show ?case by simp
qed

lemma ws_step_listening: "listening c \<Longrightarrow> listening (ws_step e c)"
proof (cases e)
  case (Tick outcome)
  obtain c' where "sendCurrentStats outcome c = Inr c'" "listening c' = listening c"
    using sendCurrentStats_Inr [of outcome c] by blast
  then show "listening c \<Longrightarrow> listening (ws_step e c)"
    using Tick by (simp add: clearInterval_def split: option.split)
qed (simp_all add: clearInterval_def)

lemma ws_run_listening: "listening c \<Longrightarrow> listening (ws_run es c)"
  unfolding ws_run_def
  by (induction es arbitrary: c) (simp_all add: ws_step_listening)

lemma on_connection_state:
  "initiated (on_connection outcome new_socket) = 1 \<and>
   statsInterval (on_connection outcome new_socket) = Some 5000 \<and>
   listening (on_connection outcome new_socket)"
  using sendCurrentStats_Inr [of outcome new_socket]
  by (auto simp: on_connection_def new_socket_def)

lemma tick_open:
  "statsInterval c \<noteq> None \<Longrightarrow> readyState c = OPEN \<Longrightarrow>
     initiated (ws_step (Tick outcome) c) = Suc (initiated c) \<and>
     statsInterval (ws_step (Tick outcome) c) = statsInterval c"
  using sendCurrentStats_Inr [of outcome c] by auto

lemma tick_not_open:
  "readyState c \<noteq> OPEN \<Longrightarrow>
     initiated (ws_step (Tick outcome) c) = initiated c \<and>
     statsInterval (ws_step (Tick outcome) c) = None"
  by (simp add: clearInterval_def split: option.split)

text \<open>
  Claim C8 says that a failure while sending a snapshot cancels the connection's timer, so
  that nothing is sent to the connection afterwards. The error is caught and logged inside
  \<open>sendCurrentStats\<close>, so the \<open>catch\<close> of the timer callback, which would clear the
  timer, never runs. On a connection that stays open: after a tick during which a storage
  read is rejected, the timer is still armed; the next ticks call \<open>sendCurrentStats\<close>
  again, and a later snapshot is delivered.
\<close>

theorem failed_send_keeps_timer:
  "readyState (ws_run [Tick StorageFails] (on_connection SendOk new_socket)) = OPEN \<and>
   statsInterval (ws_run [Tick StorageFails] (on_connection SendOk new_socket)) = Some 5000 \<and>
   logged (ws_run [Tick StorageFails] (on_connection SendOk new_socket)) = 1 \<and>
   initiated (on_connection SendOk new_socket) = 1 \<and>
   initiated (ws_run [Tick StorageFails] (on_connection SendOk new_socket)) = 2 \<and>
   initiated (ws_run [Tick StorageFails, Tick StorageFails, Tick SendOk]
                (on_connection SendOk new_socket)) = 4 \<and>
   delivered (ws_run [Tick StorageFails] (on_connection SendOk new_socket)) = 1 \<and>
   delivered (ws_run [Tick StorageFails, Tick StorageFails, Tick SendOk]
                (on_connection SendOk new_socket)) = 2"
  by (simp add: ws_run_def on_connection_def sendCurrentStats_def snapshot_and_send_def
      new_socket_def clearInterval_def Let_def)

text \<open>
  Claim C9: the connection handler initiates exactly one send and arms a timer of 5000 ms.
  In every state \<open>c\<close> the connection reaches afterwards: a tick of the armed timer on an
  open socket initiates exactly one more send and leaves the timer armed; a tick on a
  socket that is no longer open initiates none and clears the timer; and a close or an
  error of the socket clears the timer, after which no sequence of events initiates
  another send.
\<close>

theorem stats_timer_lifecycle:
  assumes "c = ws_run events (on_connection first new_socket)"
  shows "initiated (on_connection first new_socket) = 1 \<and>
     statsInterval (on_connection first new_socket) = Some 5000 \<and>
     (statsInterval c \<noteq> None \<and> readyState c = OPEN \<longrightarrow>
        initiated (ws_step (Tick outcome) c) = Suc (initiated c) \<and>
        statsInterval (ws_step (Tick outcome) c) = statsInterval c) \<and>
     (readyState c \<noteq> OPEN \<longrightarrow>
        initiated (ws_step (Tick outcome) c) = initiated c \<and>
        statsInterval (ws_step (Tick outcome) c) = None) \<and>
     (e = Close \<or> e = Error \<longrightarrow>
        statsInterval (ws_step e c) = None \<and>
        statsInterval (ws_run later (ws_step e c)) = None \<and>
        initiated (ws_run later (ws_step e c)) = initiated c)"
proof -
  have l: "listening c"
    using assms on_connection_state [of first] by (simp add: ws_run_listening)
  have stop: "statsInterval (ws_step e c) = None \<and> initiated (ws_step e c) = initiated c"
    if "e = Close \<or> e = Error"
    using that l by (auto simp: clearInterval_def)
  show ?thesis
    using on_connection_state [of first] tick_open [of c outcome] tick_not_open [of c outcome]
      stop ws_run_cleared [of "ws_step e c" later]
    by auto
qed

text \<open>
  C9 on data: a connection, two ticks, then the socket closes and the timer's period
  passes twice more. Three sends in all, none after the close.
\<close>

theorem stats_timer_lifecycle_witness:
  "initiated (on_connection SendOk new_socket) = 1 \<and>
   readyState (ws_run [Tick SendOk] (on_connection SendOk new_socket)) = OPEN \<and>
   statsInterval (ws_run [Tick SendOk] (on_connection SendOk new_socket)) = Some 5000 \<and>
   initiated (ws_run [Tick SendOk] (on_connection SendOk new_socket)) = 2 \<and>
   initiated (ws_step (Tick SendOk) (ws_run [Tick SendOk] (on_connection SendOk new_socket))) = 3 \<and>
   initiated (ws_run [Tick SendOk, Tick SendOk]
      (ws_step Close (ws_run [Tick SendOk] (on_connection SendOk new_socket)))) = 2 \<and>
   statsInterval (ws_run [Tick SendOk, Tick SendOk]
      (ws_step Close (ws_run [Tick SendOk] (on_connection SendOk new_socket)))) = None"
proof -
  have a: "ws_run [Tick SendOk] (on_connection SendOk new_socket) =
      ws_run [Tick SendOk] (on_connection SendOk new_socket)"
    by simp
  have b: "readyState (ws_run [Tick SendOk] (on_connection SendOk new_socket)) = OPEN \<and>
      statsInterval (ws_run [Tick SendOk] (on_connection SendOk new_socket)) = Some 5000 \<and>
      initiated (ws_run [Tick SendOk] (on_connection SendOk new_socket)) = 2"
    by (simp add: ws_run_def on_connection_def sendCurrentStats_def snapshot_and_send_def
        new_socket_def Let_def)
  show ?thesis
    using stats_timer_lifecycle [OF a, of SendOk Close "[Tick SendOk, Tick SendOk]"] b
    by simp
qed

end
